theory Spec2Isabelle
  imports Complex_Main "HOL-Library.Sublist" "HOL-Library.AList" "HOL-Library.Word"
begin

unbundle bit_operations_syntax

section \<open>Strings\<close>

text \<open>
  A JavaScript string is a sequence of UTF-16 code units. The model uses \<open>string\<close>
  (a list of 8-bit characters) and reads each character as the code unit of the same
  number, so it covers the strings whose code units are below 256 (ASCII and Latin-1).
  Numbers that the source holds as doubles (scores, relevances, confidences) are
  rationals in the model; \<open>NaN\<close>, where the source can produce it, is written out.
\<close>

definition toLowerCaseChar :: "char \<Rightarrow> char" where
  "toLowerCaseChar c =
     (let n = (of_char c :: nat)
      in if (65 \<le> n \<and> n \<le> 90) \<or> (192 \<le> n \<and> n \<le> 222 \<and> n \<noteq> 215)
         then char_of (n + 32) else c)"

definition toLowerCase :: "string \<Rightarrow> string" where
  "toLowerCase s = map toLowerCaseChar s"

text \<open>\<open>s.includes(sub)\<close>: \<open>sub\<close> occurs in \<open>s\<close> as a contiguous run.\<close>

fun includesStr :: "string \<Rightarrow> string \<Rightarrow> bool" where
  "includesStr [] sub = (sub = [])"
| "includesStr (c # cs) sub = (prefix sub (c # cs) \<or> includesStr cs sub)"

text \<open>White space and line terminators of ECMAScript below code unit 256.\<close>

definition isWhiteSpace :: "char \<Rightarrow> bool" where
  "isWhiteSpace c =
     (let n = (of_char c :: nat) in (9 \<le> n \<and> n \<le> 13) \<or> n = 32 \<or> n = 160)"

definition trim :: "string \<Rightarrow> string" where
  "trim s = rev (dropWhile isWhiteSpace (rev (dropWhile isWhiteSpace s)))"

definition isDigit :: "char \<Rightarrow> bool" where
  "isDigit c = (let n = (of_char c :: nat) in 48 \<le> n \<and> n \<le> 57)"

text \<open>\<open>parseInt(ds, 10)\<close> on a run of decimal digits.\<close>

definition parseInt :: "string \<Rightarrow> nat" where
  "parseInt ds = foldl (\<lambda>acc c. 10 * acc + (of_char c - 48)) 0 ds"

function collapseWhitespace :: "string \<Rightarrow> string" where
  "collapseWhitespace [] = []"
| "collapseWhitespace (c # cs) =
     (if isWhiteSpace c then CHR '' '' # collapseWhitespace (dropWhile isWhiteSpace cs)
      else c # collapseWhitespace cs)"
  by pat_completeness auto
termination
  by (relation "measure length") (auto simp: less_Suc_eq_le length_dropWhile_le)

text \<open>\<open>s.split(/\s+/)\<close>: the pieces between the runs of white space, empty ones kept.\<close>

function splitWhitespace :: "string \<Rightarrow> string list" where
  "splitWhitespace s =
     (let w = takeWhile (\<lambda>c. \<not> isWhiteSpace c) s;
          r = dropWhile (\<lambda>c. \<not> isWhiteSpace c) s
      in if r = [] then [w] else w # splitWhitespace (dropWhile isWhiteSpace r))"
  by pat_completeness auto
termination
proof (relation "measure length", goal_cases)
  case 1
  show ?case by simp
next
  case (2 s w r)
  have a: "length r \<le> length s" using 2(2) by (simp add: length_dropWhile_le)
  obtain c cs where r: "r = c # cs" using 2(3) by (cases r) auto
  have "isWhiteSpace c" using 2(2) r hd_dropWhile [of "\<lambda>c. \<not> isWhiteSpace c" s] by force
  then have "dropWhile isWhiteSpace r = dropWhile isWhiteSpace cs" using r by simp
  then have "length (dropWhile isWhiteSpace r) \<le> length cs" by (simp add: length_dropWhile_le)
  then show ?case using a r by simp
qed

subsection \<open>Regular expressions\<close>

text \<open>
  The fragment of ECMAScript regular expressions that the source uses: literals, a
  character class, \<open>.*\<close>, the word boundary \<open>\b\<close>, the anchor \<open>^\<close>, alternation,
  sequence and \<open>?\<close>. A matching state is the text before the position (reversed) and
  the text after it; \<open>rxMatch\<close> lists the states a match can end in.
\<close>

datatype rx =
    Lit string
  | CharIn string
  | AnyStar
  | WordB
  | Bol
  | Alt "rx list"
  | Seq "rx list"
  | Opt rx

definition isWordChar :: "char \<Rightarrow> bool" where
  "isWordChar c =
     (let n = (of_char c :: nat)
      in (48 \<le> n \<and> n \<le> 57) \<or> (65 \<le> n \<and> n \<le> 90) \<or> n = 95 \<or> (97 \<le> n \<and> n \<le> 122))"

definition isLineTerminator :: "char \<Rightarrow> bool" where
  "isLineTerminator c = (let n = (of_char c :: nat) in n = 10 \<or> n = 13)"

definition wordAtHead :: "string \<Rightarrow> bool" where
  "wordAtHead s = (case s of [] \<Rightarrow> False | c # _ \<Rightarrow> isWordChar c)"

fun rxMatch :: "rx \<Rightarrow> string \<times> string \<Rightarrow> (string \<times> string) list" where
  "rxMatch (Lit w) (b, r) = (if prefix w r then [(rev w @ b, drop (length w) r)] else [])"
| "rxMatch (CharIn cs) (b, r) =
     (case r of [] \<Rightarrow> [] | c # r' \<Rightarrow> if c \<in> set cs then [(c # b, r')] else [])"
| "rxMatch AnyStar (b, r) =
     map (\<lambda>k. (rev (take k r) @ b, drop k r))
       [0..<Suc (length (takeWhile (\<lambda>c. \<not> isLineTerminator c) r))]"
| "rxMatch WordB (b, r) = (if wordAtHead b \<noteq> wordAtHead r then [(b, r)] else [])"
| "rxMatch Bol (b, r) = (if b = [] then [(b, r)] else [])"
| "rxMatch (Alt xs) s = concat (map (\<lambda>x. rxMatch x s) xs)"
| "rxMatch (Seq xs) s = foldl (\<lambda>states x. concat (map (rxMatch x) states)) [s] xs"
| "rxMatch (Opt x) s = rxMatch x s @ [s]"

text \<open>\<open>regex.test(s)\<close> without the global flag: a match starting at some position.\<close>

definition rxTest :: "rx \<Rightarrow> string \<Rightarrow> bool" where
  "rxTest r s =
     list_ex (\<lambda>i. rxMatch r (rev (take i s), drop i s) \<noteq> []) [0..<Suc (length s)]"

definition words :: "string list \<Rightarrow> rx" where
  "words ws = Alt (map Lit ws)"

text \<open>\<open>/\b(w1|w2|...)\b/\<close>\<close>

definition wholeWords :: "rx list \<Rightarrow> rx" where
  "wholeWords alts = Seq [WordB, Alt alts, WordB]"

section \<open>Query analyzer (query-analyzer.ts)\<close>

datatype QueryIntent =
  Definition | How_to | Comparison | Troubleshoot | Architecture | Api_reference
  | Example | General

datatype DocumentType = TXT | OPENAPI | PLANTUML

record AnalyzedQuery =
  original :: string
  normalized :: string
  intent :: QueryIntent
  queryKeywords :: "string list"
  documentTypes :: "DocumentType list"
  requiresCode :: bool
  requiresDiagram :: bool
  queryConfidence :: rat

definition stripTrailingPunct :: "string \<Rightarrow> string" where
  "stripTrailingPunct s =
     (if s \<noteq> [] \<and> last s \<in> set ''?.,!;:'' then butlast s else s)"

definition normalize :: "string \<Rightarrow> string" where
  "normalize query = stripTrailingPunct (collapseWhitespace (trim (toLowerCase query)))"

definition patterns :: "(QueryIntent \<times> rx list) list" where
  "patterns =
   [(Definition,
      [Seq [Bol, words [''what is'', ''what's'', ''define'', ''explain'', ''describe'',
                        ''meaning of'']],
       wholeWords (map Lit [''definition'', ''meaning'', ''concept''])]),
    (How_to,
      [Seq [Bol, Alt [Seq [Lit ''how '', words [''do'', ''can'', ''to'']],
                      Seq [Lit ''step'', Opt (Lit ''s''), Lit '' '', words [''to'', ''for'']],
                      Seq [Lit ''guide '', words [''to'', ''for'']],
                      Lit ''tutorial'']],
       wholeWords (map Lit [''install'', ''setup'', ''configure'', ''implement'', ''use''])]),
    (Comparison,
      [wholeWords [Lit ''compare'', Lit ''versus'', Lit ''vs'', Lit ''difference between'',
                   Lit ''similarities'',
                   Seq [Lit ''pro'', Opt (Lit ''s''), Lit '' and con'', Opt (Lit ''s'')]],
       wholeWords [Lit ''better than'', Lit ''worse than'',
                   Seq [Lit ''advantage'', Opt (Lit ''s'')]]]),
    (Troubleshoot,
      [wholeWords (map Lit [''error'', ''bug'', ''issue'', ''problem'', ''fail'', ''crash'',
                            ''broken'', ''not working'', ''doesn't work'']),
       wholeWords (map Lit [''fix'', ''solve'', ''debug'', ''troubleshoot'', ''resolve''])]),
    (Architecture,
      [wholeWords [Lit ''architecture'', Lit ''structure'', Lit ''design'',
                   Seq [Lit ''component'', Opt (Lit ''s'')],
                   Seq [Lit ''module'', Opt (Lit ''s'')], Lit ''system''],
       wholeWords [Seq [Lit ''how '', words [''is'', ''does''], Lit '' '', AnyStar, Lit '' '',
                        words [''work'', ''organized'', ''structured'']]],
       wholeWords (map Lit [''data flow'', ''interaction'', ''relationship''])]),
    (Api_reference,
      [wholeWords (map Lit [''api'', ''endpoint'', ''method'', ''function'', ''class'',
                            ''interface'', ''parameter'', ''return'']),
       wholeWords (map Lit [''request'', ''response'', ''json'', ''schema'', ''type''])]),
    (Example,
      [wholeWords (map Lit [''example'', ''sample'', ''demo'', ''show me'', ''snippet'',
                            ''code'']),
       wholeWords [Seq [Lit ''how to '', words [''write'', ''create'', ''make'']]]]),
    (General, [AnyStar])]"

text \<open>The first intent, in the table's order, one of whose patterns matches.\<close>

definition detectIntent :: "string \<Rightarrow> QueryIntent" where
  "detectIntent query =
     (case find (\<lambda>(i, regexes). list_ex (\<lambda>regex. rxTest regex query) regexes) patterns of
        Some (i, regexes) \<Rightarrow> i
      | None \<Rightarrow> General)"

definition stopWords :: "string list" where
  "stopWords =
     [''a'', ''an'', ''the'', ''is'', ''are'', ''was'', ''were'', ''be'', ''been'',
      ''being'', ''have'', ''has'', ''had'', ''do'', ''does'', ''did'', ''will'',
      ''would'', ''could'', ''should'', ''may'', ''might'', ''must'', ''shall'',
      ''can'', ''need'', ''dare'', ''ought'', ''used'', ''to'', ''of'', ''in'',
      ''for'', ''on'', ''with'', ''at'', ''by'', ''from'', ''as'', ''into'',
      ''through'', ''during'', ''before'', ''after'', ''above'', ''below'',
      ''between'', ''under'', ''and'', ''but'', ''or'', ''yet'', ''so'']"

definition isLowerAlnum :: "char \<Rightarrow> bool" where
  "isLowerAlnum c =
     (let n = (of_char c :: nat) in (97 \<le> n \<and> n \<le> 122) \<or> (48 \<le> n \<and> n \<le> 57))"

definition extractKeywords :: "string \<Rightarrow> string list" where
  "extractKeywords query =
     filter (\<lambda>w. w \<noteq> [])
       (map (filter isLowerAlnum)
          (filter (\<lambda>w. length w > 2 \<and> w \<notin> set stopWords) (splitWhitespace query)))"

definition inferDocumentTypes :: "QueryIntent \<Rightarrow> string \<Rightarrow> DocumentType list" where
  "inferDocumentTypes i query =
     (case i of
        Api_reference \<Rightarrow> [OPENAPI, TXT]
      | Architecture \<Rightarrow> [PLANTUML, TXT]
      | Troubleshoot \<Rightarrow> [TXT, OPENAPI]
      | How_to \<Rightarrow> [TXT, OPENAPI]
      | Definition \<Rightarrow> [TXT, OPENAPI]
      | Comparison \<Rightarrow> [TXT, PLANTUML]
      | Example \<Rightarrow> [OPENAPI, TXT]
      | General \<Rightarrow> [TXT, OPENAPI, PLANTUML])"

definition codePatterns :: "rx list" where
  "codePatterns =
     [wholeWords (map Lit [''code'', ''snippet'', ''example'', ''implementation'',
                           ''function'', ''method'', ''class'']),
      wholeWords (map Lit [''javascript'', ''typescript'', ''python'', ''java'', ''go'',
                           ''rust'', ''cpp'', ''c++'']),
      Alt [CharIn ''{}[];=()'',
           wholeWords (map Lit [''const'', ''let'', ''var'', ''function'', ''class'',
                                ''interface'', ''type''])]]"

definition detectCodeRequirement :: "string \<Rightarrow> bool" where
  "detectCodeRequirement query = list_ex (\<lambda>p. rxTest p query) codePatterns"

definition diagramPatterns :: "rx list" where
  "diagramPatterns =
     [wholeWords (map Lit [''diagram'', ''chart'', ''flow'', ''sequence'', ''class'',
                           ''component'', ''deployment'']),
      wholeWords (map Lit [''plantuml'', ''mermaid'', ''graphviz'']),
      wholeWords (map Lit [''visualization'', ''visual'', ''picture'', ''show'', ''draw''])]"

definition detectDiagramRequirement :: "string \<Rightarrow> bool" where
  "detectDiagramRequirement query = list_ex (\<lambda>p. rxTest p query) diagramPatterns"

definition calculateConfidence :: "string \<Rightarrow> QueryIntent \<Rightarrow> rat" where
  "calculateConfidence query i =
     (let c0 = 5/10;
          c1 = (if length query > 20 then c0 + 1/10 else c0);
          c2 = (if length query > 50 then c1 + 1/10 else c1);
          c3 = (if i \<noteq> General then c2 + 2/10 else c2);
          c4 = (if length query < 10 then c3 - 2/10 else c3)
      in min 1 (max 0 c4))"

definition analyze :: "string \<Rightarrow> AnalyzedQuery" where
  "analyze query =
     (let n = normalize query;
          i = detectIntent n
      in \<lparr> original = query,
           normalized = n,
           intent = i,
           queryKeywords = extractKeywords n,
           documentTypes = inferDocumentTypes i n,
           requiresCode = detectCodeRequirement n,
           requiresDiagram = detectDiagramRequirement n,
           queryConfidence = calculateConfidence n i \<rparr>)"


section \<open>Retrieval (retrieval.service.ts, vector.store.ts)\<close>

record ChunkMetadata =
  documentType :: DocumentType
  sectionName :: "string option"
  weight :: rat

record SearchResult =
  chunkId :: string
  documentId :: string
  projectId :: string
  content :: string
  relevance :: rat
  metadata :: ChunkMetadata

record RetrievedChunk = SearchResult +
  rank :: nat
  score :: rat
  duplicateOf :: "string option"

text \<open>
  A property of an options object: absent, present with the value \<open>undefined\<close>, or
  present with a value. \<open>{...a, ...b}\<close> takes a property from \<open>b\<close> when \<open>b\<close> has
  it, whatever its value, and from \<open>a\<close> otherwise.
\<close>

datatype 'a field = Absent | Undefined | Value 'a

definition spread :: "'a field \<Rightarrow> 'a field \<Rightarrow> 'a field" where
  "spread a b = (case b of Absent \<Rightarrow> a | _ \<Rightarrow> b)"

record RetrievalOptions =
  optProjectId :: "string field"
  optDocumentTypes :: "DocumentType list field"
  optLimit :: "nat field"
  optThreshold :: "rat field"
  optRerank :: "bool field"
  optDeduplicate :: "bool field"

definition DEFAULT_RETRIEVAL_OPTIONS :: RetrievalOptions where
  "DEFAULT_RETRIEVAL_OPTIONS =
     \<lparr> optProjectId = Absent, optDocumentTypes = Absent,
       optLimit = Value 10, optThreshold = Value (3/10),
       optRerank = Value True, optDeduplicate = Value True \<rparr>"

definition mergeRetrievalOptions :: "RetrievalOptions \<Rightarrow> RetrievalOptions \<Rightarrow> RetrievalOptions" where
  "mergeRetrievalOptions a b =
     \<lparr> optProjectId = spread (optProjectId a) (optProjectId b),
       optDocumentTypes = spread (optDocumentTypes a) (optDocumentTypes b),
       optLimit = spread (optLimit a) (optLimit b),
       optThreshold = spread (optThreshold a) (optThreshold b),
       optRerank = spread (optRerank a) (optRerank b),
       optDeduplicate = spread (optDeduplicate a) (optDeduplicate b) \<rparr>"

text \<open>What the vector store is asked; \<open>None\<close> is \<open>undefined\<close> (\<open>NaN\<close> for the limit).\<close>

record SearchOptions =
  searchProjectId :: "string option"
  searchDocumentTypes :: "DocumentType list"
  searchLimit :: "nat option"
  searchThreshold :: "rat option"

definition valueOf :: "'a field \<Rightarrow> 'a option" where
  "valueOf f = (case f of Value v \<Rightarrow> Some v | _ \<Rightarrow> None)"

definition calculateScore :: "SearchResult \<Rightarrow> AnalyzedQuery \<Rightarrow> rat" where
  "calculateScore result query =
     (let s0 = relevance result;
          s1 = s0 * (1 + weight (metadata result) * (2/10));
          s2 = (if intent query = Api_reference \<and> documentType (metadata result) = OPENAPI
                then s1 * (11/10) else s1);
          s3 = (if intent query = Architecture \<and> documentType (metadata result) = PLANTUML
                then s2 * (11/10) else s2)
      in min 1 s3)"

definition toChunk :: "AnalyzedQuery \<Rightarrow> SearchResult \<Rightarrow> nat \<Rightarrow> RetrievedChunk" where
  "toChunk query r i =
     \<lparr> chunkId = chunkId r, documentId = documentId r, projectId = projectId r,
       content = content r, relevance = relevance r, metadata = metadata r,
       rank = i + 1, score = calculateScore r query, duplicateOf = None \<rparr>"

text \<open>
  \<open>[...chunks].sort((a, b) => b.score - a.score)\<close> is a stable sort by descending
  score; then the ranks are reassigned by position.
\<close>

definition reassignRanks :: "RetrievedChunk list \<Rightarrow> RetrievedChunk list" where
  "reassignRanks srt =
     map (\<lambda>(chunk, i). chunk\<lparr>rank := i + 1\<rparr>) (zip srt [0..<length srt])"

definition rerank :: "RetrievedChunk list \<Rightarrow> AnalyzedQuery \<Rightarrow> RetrievedChunk list" where
  "rerank chunks query = reassignRanks (sort_key (\<lambda>c. - score c) chunks)"

definition hexDigit :: "nat \<Rightarrow> char" where
  "hexDigit d = ''0123456789abcdef'' ! d"

function hexDigits :: "nat \<Rightarrow> string" where
  "hexDigits n = (if n < 16 then [hexDigit n] else hexDigits (n div 16) @ [hexDigit (n mod 16)])"
  by pat_completeness auto
termination
  by (relation "measure id") auto

text \<open>\<open>n.toString(16)\<close> of an integer.\<close>

definition toString16 :: "int \<Rightarrow> string" where
  "toString16 n = (if n < 0 then CHR ''-'' # hexDigits (nat (- n)) else hexDigits (nat n))"

text \<open>
  \<open>hash = ((hash << 5) - hash) + char; hash = hash & hash\<close> keeps the hash a signed
  32-bit integer: arithmetic modulo \<open>2 ^ 32\<close>, read back in two's complement.
\<close>

definition hashStep :: "32 word \<Rightarrow> char \<Rightarrow> 32 word" where
  "hashStep hash c = (push_bit 5 hash - hash) + of_nat (of_char c)"

definition createFingerprint :: "string \<Rightarrow> string" where
  "createFingerprint s =
     (let normalized = take 100 (trim (collapseWhitespace (toLowerCase s)))
      in toString16 (sint (foldl hashStep 0 normalized)))"

text \<open>
  The \<open>seen\<close> map is an association list in insertion order: \<open>Map.set\<close> on a key
  already present replaces the value in place, on a new key appends.
\<close>

definition dedupStep ::
  "(string \<times> RetrievedChunk) list \<Rightarrow> RetrievedChunk \<Rightarrow> (string \<times> RetrievedChunk) list" where
  "dedupStep seen chunk =
     (let fingerprint = createFingerprint (content chunk)
      in case map_of seen fingerprint of
           Some existing \<Rightarrow>
             if score chunk > score existing
             then AList.update fingerprint (chunk\<lparr>duplicateOf := Some (chunkId existing)\<rparr>) seen
             else seen
         | None \<Rightarrow> AList.update fingerprint chunk seen)"

definition deduplicate :: "RetrievedChunk list \<Rightarrow> RetrievedChunk list" where
  "deduplicate chunks = map snd (foldl dedupStep [] chunks)"

text \<open>
  \<open>chunks.slice(0, limit)\<close> for a limit that is a natural number; with \<open>limit\<close>
  undefined the whole list.
\<close>

definition sliceTo :: "nat option \<Rightarrow> 'a list \<Rightarrow> 'a list" where
  "sliceTo limit xs = (case limit of Some n \<Rightarrow> take n xs | None \<Rightarrow> xs)"

text \<open>
  The steps of \<open>retrieve\<close> after the vector search: scoring, reranking, deduplication
  and truncation, under the merged options.
\<close>

definition rankChunks ::
  "RetrievalOptions \<Rightarrow> AnalyzedQuery \<Rightarrow> SearchResult list \<Rightarrow> RetrievedChunk list" where
  "rankChunks opts analyzedQuery results =
     (let chunks0 = map (\<lambda>(r, i). toChunk analyzedQuery r i) (zip results [0..<length results]);
          chunks1 = (if valueOf (optRerank opts) = Some True
                     then rerank chunks0 analyzedQuery else chunks0);
          chunks2 = (if valueOf (optDeduplicate opts) = Some True
                     then deduplicate chunks1 else chunks1)
      in sliceTo (valueOf (optLimit opts)) chunks2)"

text \<open>
  The embedder and the vector store are collaborators: \<open>search\<close> stands for embedding
  the normalized query and searching with it, and either fails with a message or
  returns the candidates. A failure is rethrown.
\<close>

definition retrieve ::
  "(string \<Rightarrow> SearchOptions \<Rightarrow> string + SearchResult list)
     \<Rightarrow> AnalyzedQuery \<Rightarrow> RetrievalOptions \<Rightarrow> string + RetrievedChunk list" where
  "retrieve search analyzedQuery options =
     (let opts = mergeRetrievalOptions DEFAULT_RETRIEVAL_OPTIONS options;
          searchOptions =
            \<lparr> searchProjectId = valueOf (optProjectId opts),
              searchDocumentTypes =
                (case valueOf (optDocumentTypes opts) of
                   Some ts \<Rightarrow> ts | None \<Rightarrow> documentTypes analyzedQuery),
              searchLimit = map_option (\<lambda>n. n * 2) (valueOf (optLimit opts)),
              searchThreshold = valueOf (optThreshold opts) \<rparr>
      in case search (normalized analyzedQuery) searchOptions of
           Inl err \<Rightarrow> Inl err
         | Inr results \<Rightarrow> Inr (rankChunks opts analyzedQuery results))"

section \<open>Prompt builder (prompt-builder.ts)\<close>

datatype ResponseFormat = markdown | json

record BuiltPrompt =
  systemPrompt :: string
  userPrompt :: string
  contextChunks :: "RetrievedChunk list"
  estimatedTokens :: nat

definition MAX_CONTEXT_TOKENS :: nat where
  "MAX_CONTEXT_TOKENS = 4000"

definition TOKEN_ESTIMATE_RATIO :: nat where
  "TOKEN_ESTIMATE_RATIO = 4"

text \<open>\<open>Math.ceil(n / TOKEN_ESTIMATE_RATIO)\<close> for a length \<open>n\<close>.\<close>

definition ceilRatio :: "nat \<Rightarrow> nat" where
  "ceilRatio n = (n + (TOKEN_ESTIMATE_RATIO - 1)) div TOKEN_ESTIMATE_RATIO"

definition estimateTokens :: "string \<Rightarrow> nat" where
  "estimateTokens s = ceilRatio (length s)"

definition decDigit :: "nat \<Rightarrow> char" where
  "decDigit d = ''0123456789'' ! d"

function decDigits :: "nat \<Rightarrow> string" where
  "decDigits n = (if n < 10 then [decDigit n] else decDigits (n div 10) @ [decDigit (n mod 10)])"
  by pat_completeness auto
termination
  by (relation "measure id") auto

text \<open>
  \<open>x.toFixed(1)\<close> for \<open>|x| < 10^21\<close>: the nearest multiple of one tenth, the larger
  one on a tie, with a sign for negative \<open>x\<close>.
\<close>

definition toFixed1 :: "rat \<Rightarrow> string" where
  "toFixed1 x =
     (let a = \<bar>x\<bar>;
          n = nat \<lfloor>a * 10 + 1/2\<rfloor>;
          ds = decDigits n;
          m = (if length ds \<le> 1 then CHR ''0'' # ds else ds)
      in (if x < 0 then ''-'' else []) @ butlast m @ ''.'' @ [last m])"

fun joinWith :: "string \<Rightarrow> string list \<Rightarrow> string" where
  "joinWith sep [] = []"
| "joinWith sep [x] = x"
| "joinWith sep (x # y # ys) = x @ sep @ joinWith sep (y # ys)"

definition baseInstructions :: string where
  "baseInstructions =
     ''You are a technical documentation assistant. Your responses must be:''
     @ [CHR 0x0A, CHR 0x0A]
     @ ''1. **GROUNDED IN FACTS**: Only use information from the provided context. ''
     @ ''Do not use external knowledge.'' @ [CHR 0x0A]
     @ ''2. **CITATION REQUIRED**: Cite sources for every significant claim using ''
     @ ''[source:N] format.'' @ [CHR 0x0A]
     @ ''3. **HONEST ABOUT LIMITATIONS**: If the context doesn't contain the answer, ''
     @ ''say \"I don't have enough information to answer that.\"'' @ [CHR 0x0A]
     @ ''4. **PRECISE**: Be specific and technical. Avoid vague generalizations.''
     @ [CHR 0x0A]
     @ ''5. **STRUCTURED**: Organize information clearly with headers, lists, and ''
     @ ''code blocks as appropriate.''"

definition antiHallucination :: string where
  "antiHallucination =
     [CHR 0x0A, CHR 0x0A] @ ''**CRITICAL - ANTI-HALLUCINATION RULES**:'' @ [CHR 0x0A]
     @ ''- NEVER invent API endpoints, parameters, or return values not in the ''
     @ ''context'' @ [CHR 0x0A] @ ''- NEVER make up code examples'' @ [CHR 0x0A]
     @ ''- NEVER assume functionality not explicitly documented'' @ [CHR 0x0A]
     @ ''- If information seems incomplete, state what is missing'' @ [CHR 0x0A]
     @ ''- When uncertain, express confidence level (high/medium/low)''"

definition formatInstructionsJson :: string where
  "formatInstructionsJson =
     [CHR 0x0A, CHR 0x0A] @ ''**OUTPUT FORMAT - JSON**:'' @ [CHR 0x0A]
     @ ''Respond with a JSON object containing:'' @ [CHR 0x0A] @ ''{'' @ [CHR 0x0A]
     @ ''  \"answer\": \"Your detailed answer with citations\",'' @ [CHR 0x0A]
     @ ''  \"confidence\": \"high|medium|low\",'' @ [CHR 0x0A]
     @ ''  \"sources\": [1, 2, 3],'' @ [CHR 0x0A]
     @ ''  \"missingInfo\": \"Any information that would be needed for a complete ''
     @ ''answer\"'' @ [CHR 0x0A] @ ''}''"

definition formatInstructionsMarkdown :: string where
  "formatInstructionsMarkdown =
     [CHR 0x0A, CHR 0x0A] @ ''**OUTPUT FORMAT - MARKDOWN**:'' @ [CHR 0x0A]
     @ ''Use markdown formatting:'' @ [CHR 0x0A] @ ''- Headers (##) for sections''
     @ [CHR 0x0A] @ ''- Code blocks (```language) for code'' @ [CHR 0x0A]
     @ ''- Bullet points for lists'' @ [CHR 0x0A] @ ''- **Bold** for important terms''
     @ [CHR 0x0A] @ ''- [source:N] citations inline''"

definition getIntentSpecificInstructions :: "QueryIntent \<Rightarrow> string" where
  "getIntentSpecificInstructions i =
     (case i of
        Definition \<Rightarrow>
          [CHR 0x0A, CHR 0x0A]
          @ ''**TASK - DEFINITION**: Provide a clear, technical definition. Include ''
          @ ''purpose, key characteristics, and relationships to other concepts.''
      | How_to \<Rightarrow>
          [CHR 0x0A, CHR 0x0A]
          @ ''**TASK - HOW-TO**: Provide step-by-step instructions. Number each step. ''
          @ ''Include prerequisites and expected outcomes.''
      | Comparison \<Rightarrow>
          [CHR 0x0A, CHR 0x0A]
          @ ''**TASK - COMPARISON**: Create a structured comparison. Use a table if ''
          @ ''comparing multiple items. Highlight key differences clearly.''
      | Troubleshoot \<Rightarrow>
          [CHR 0x0A, CHR 0x0A]
          @ ''**TASK - TROUBLESHOOTING**: Identify the issue, provide diagnostic steps, ''
          @ ''and offer solutions. Include common causes.''
      | Architecture \<Rightarrow>
          [CHR 0x0A, CHR 0x0A]
          @ ''**TASK - ARCHITECTURE**: Describe components, their relationships, and ''
          @ ''data flow. Reference diagrams if available.''
      | Api_reference \<Rightarrow>
          [CHR 0x0A, CHR 0x0A]
          @ ''**TASK - API REFERENCE**: Document endpoints, methods, parameters, and ''
          @ ''responses. Include example requests/responses.''
      | Example \<Rightarrow>
          [CHR 0x0A, CHR 0x0A]
          @ ''**TASK - EXAMPLE**: Provide concrete, runnable examples. Explain what ''
          @ ''the code does and when to use it.''
      | General \<Rightarrow>
          '''')"

definition buildSystemPrompt :: "QueryIntent \<Rightarrow> ResponseFormat \<Rightarrow> string" where
  "buildSystemPrompt i fmt =
     baseInstructions @ antiHallucination
     @ (if fmt = json then formatInstructionsJson else formatInstructionsMarkdown)
     @ getIntentSpecificInstructions i"

definition documentTypeString :: "DocumentType \<Rightarrow> string" where
  "documentTypeString t =
     (case t of TXT \<Rightarrow> ''txt'' | OPENAPI \<Rightarrow> ''openapi'' | PLANTUML \<Rightarrow> ''plantuml'')"

text \<open>The metadata line; an absent or empty section label is left out.\<close>

definition chunkMetadataLine :: "RetrievedChunk \<Rightarrow> string" where
  "chunkMetadataLine chunk =
     joinWith '' | ''
       ([''Type: '' @ documentTypeString (documentType (metadata chunk))]
        @ (case sectionName (metadata chunk) of
             Some s \<Rightarrow> if s \<noteq> [] then [''Section: '' @ s] else []
           | None \<Rightarrow> [])
        @ [''Relevance: '' @ toFixed1 (score chunk * 100) @ ''%''])"

definition renderSource :: "RetrievedChunk \<Rightarrow> nat \<Rightarrow> string" where
  "renderSource chunk index =
     ''### Source '' @ decDigits (index + 1) @ [CHR 0x0A] @ ''**Metadata**: ''
     @ chunkMetadataLine chunk @ [CHR 0x0A, CHR 0x0A] @ content chunk"

definition buildContextSection :: "RetrievedChunk list \<Rightarrow> string" where
  "buildContextSection chunks =
     (if length chunks = 0
      then ''## Context'' @ [CHR 0x0A, CHR 0x0A] @ ''No relevant context found.''
      else ''## Context'' @ [CHR 0x0A, CHR 0x0A]
           @ joinWith ([CHR 0x0A, CHR 0x0A] @ ''---'' @ [CHR 0x0A, CHR 0x0A])
               (map (\<lambda>(chunk, index). renderSource chunk index)
                  (zip chunks [0..<length chunks])))"

definition constraints :: string where
  "constraints =
     [CHR 0x0A, CHR 0x0A] @ ''## Constraints'' @ [CHR 0x0A]
     @ ''- Answer based ONLY on the provided context'' @ [CHR 0x0A]
     @ ''- Cite sources using [source:N] format'' @ [CHR 0x0A]
     @ ''- Be concise but complete'' @ [CHR 0x0A]
     @ ''- If information is insufficient, say so explicitly''"

definition buildUserPrompt ::
  "AnalyzedQuery \<Rightarrow> RetrievedChunk list \<Rightarrow> ResponseFormat \<Rightarrow> string" where
  "buildUserPrompt query chunks fmt =
     buildContextSection chunks @ [CHR 0x0A, CHR 0x0A]
     @ (''## Question'' @ [CHR 0x0A, CHR 0x0A] @ original query) @ constraints"

definition chunkTokens :: "RetrievedChunk \<Rightarrow> nat" where
  "chunkTokens chunk = ceilRatio (length (content chunk))"

text \<open>
  The selection loop with its two variables, the chunks selected so far and the running
  estimate; \<open>break\<close> returns what is selected.
\<close>

fun selectLoop ::
  "RetrievedChunk list \<Rightarrow> RetrievedChunk list \<Rightarrow> nat \<Rightarrow> RetrievedChunk list" where
  "selectLoop [] selected est = selected"
| "selectLoop (chunk # rest) selected est =
     (if est + chunkTokens chunk > MAX_CONTEXT_TOKENS \<and> length selected > 0 then selected
      else selectLoop rest (selected @ [chunk]) (est + chunkTokens chunk))"

definition selectChunks :: "RetrievedChunk list \<Rightarrow> RetrievedChunk list" where
  "selectChunks chunks = selectLoop chunks [] 0"

definition build ::
  "AnalyzedQuery \<Rightarrow> RetrievedChunk list \<Rightarrow> ResponseFormat \<Rightarrow> BuiltPrompt" where
  "build query chunks fmt =
     (let selectedChunks = selectChunks chunks;
          sys = buildSystemPrompt (intent query) fmt;
          usr = buildUserPrompt query selectedChunks fmt
      in \<lparr> systemPrompt = sys,
           userPrompt = usr,
           contextChunks = selectedChunks,
           estimatedTokens = estimateTokens (sys @ usr) \<rparr>)"

section \<open>Response processor (response-processor.ts)\<close>

datatype Provider = lmstudio | deepseek | kimi | openai

record LLMResponse =
  llmContent :: string
  llmTokensUsed :: "nat option"
  llmModel :: string
  llmProvider :: Provider

datatype ConfidenceLevel = high | medium | low | insufficient

record SourceCitation =
  number :: nat
  citChunkId :: string
  citDocumentId :: string
  citContent :: string
  citRelevance :: rat

record ResponseMetadata =
  processingTimeMs :: int
  chunksUsed :: nat
  tokensUsed :: "nat option"
  modelUsed :: "string option"
  hasCitations :: bool
  isGrounded :: bool

record ProcessedResponse =
  answer :: string
  sources :: "SourceCitation list"
  confidence :: ConfidenceLevel
  respMetadata :: ResponseMetadata

text \<open>
  One attempt of \<open>/\[source:(\d+)\]/\<close> at the head of the text: the literal
  \<open>[source:\<close>, a non-empty maximal run of digits, then \<open>]\<close>. The result is the
  parsed number and the text after the match.
\<close>

definition matchCitationAt :: "string \<Rightarrow> (nat \<times> string) option" where
  "matchCitationAt s =
     (if prefix ''[source:'' s then
        (let r = drop 8 s; ds = takeWhile isDigit r; r' = dropWhile isDigit r
         in if ds \<noteq> [] \<and> r' \<noteq> [] \<and> hd r' = CHR '']''
            then Some (parseInt ds, tl r') else None)
      else None)"

lemma matchCitationAt_shorter:
  "matchCitationAt s = Some (n, r) \<Longrightarrow> length r < length s"
proof -
  assume a: "matchCitationAt s = Some (n, r)"
  then have r: "r = tl (dropWhile isDigit (drop 8 s))" and ne: "dropWhile isDigit (drop 8 s) \<noteq> []"
    by (auto simp: matchCitationAt_def Let_def split: if_splits)
  have "length (dropWhile isDigit (drop 8 s)) \<le> length (drop 8 s)"
    by (rule length_dropWhile_le)
  moreover have "length (drop 8 s) \<le> length s" by simp
  moreover have "length r < length (dropWhile isDigit (drop 8 s))"
    using r ne by (cases "dropWhile isDigit (drop 8 s)") auto
  ultimately show ?thesis by linarith
qed

text \<open>
  The \<open>while ((match = citationRegex.exec(content)) !== null)\<close> loop: the numbers of
  the successive non-overlapping matches, left to right.
\<close>

function citedMatches :: "string \<Rightarrow> nat list" where
  "citedMatches [] = []"
| "citedMatches (c # cs) =
     (case matchCitationAt (c # cs) of
        Some (n, r) \<Rightarrow> n # citedMatches r
      | None \<Rightarrow> citedMatches cs)"
  by pat_completeness auto
termination
  by (relation "measure length") (auto dest: matchCitationAt_shorter)

text \<open>\<open>Set.add\<close>: a set of numbers in insertion order.\<close>

definition setAdd :: "nat list \<Rightarrow> nat \<Rightarrow> nat list" where
  "setAdd xs x = (if x \<in> set xs then xs else xs @ [x])"

definition citedNumbers :: "string \<Rightarrow> nat list" where
  "citedNumbers s = foldl setAdd [] (citedMatches s)"

text \<open>
  \<open>chunks[num - 1]\<close> is \<open>undefined\<close> for \<open>num = 0\<close> and for \<open>num\<close> beyond the
  length; such numbers give no citation.
\<close>

definition citationOf :: "RetrievedChunk list \<Rightarrow> nat \<Rightarrow> SourceCitation option" where
  "citationOf chunks num =
     (if 1 \<le> num \<and> num \<le> length chunks then
        (let chunk = chunks ! (num - 1)
         in Some \<lparr> number = num,
                   citChunkId = chunkId chunk,
                   citDocumentId = documentId chunk,
                   citContent = take 200 (content chunk)
                      @ (if length (content chunk) > 200 then ''...'' else ''''),
                   citRelevance = score chunk \<rparr>)
      else None)"

definition extractCitations :: "string \<Rightarrow> RetrievedChunk list \<Rightarrow> SourceCitation list" where
  "extractCitations s chunks =
     sort_key number (List.map_filter (citationOf chunks) (citedNumbers s))"

definition noInfoPhrases :: "string list" where
  "noInfoPhrases =
     [''i don't have enough information'', ''no relevant information'',
      ''not found in the documentation'']"

definition hasNoInfoAdmission :: "string \<Rightarrow> bool" where
  "hasNoInfoAdmission s = list_ex (includesStr (toLowerCase s)) noInfoPhrases"

definition uncertaintyMarkers :: "string list" where
  "uncertaintyMarkers =
     [''might be'', ''could be'', ''possibly'', ''perhaps'', ''maybe'',
      ''i'm not sure'', ''unclear'', ''ambiguous'', ''appears to'']"

text \<open>
  The mean relevance is \<open>0 / 0 = NaN\<close> for an empty citation list; every comparison
  with \<open>NaN\<close> is false, which \<open>None\<close> stands for.
\<close>

definition avgRelevance :: "SourceCitation list \<Rightarrow> rat option" where
  "avgRelevance cs =
     (if cs = [] then None
      else Some (sum_list (map citRelevance cs) / of_nat (length cs)))"

definition nanGreater :: "rat option \<Rightarrow> rat \<Rightarrow> bool" where
  "nanGreater a b = (case a of None \<Rightarrow> False | Some x \<Rightarrow> x > b)"

definition confidenceScore :: "string \<Rightarrow> SourceCitation list \<Rightarrow> rat" where
  "confidenceScore s cs =
     (let s1 = (if length cs > 0 then 3/10 else 0);
          avg = avgRelevance cs;
          s2 = s1 + (if nanGreater avg (8/10) then 3/10
                     else if nanGreater avg (6/10) then 2/10 else 0);
          s3 = s2 + (if length cs \<ge> 3 then 2/10
                     else if length cs \<ge> 2 then 1/10 else 0);
          hasUncertainty = list_ex (includesStr (toLowerCase s)) uncertaintyMarkers
      in s3 + (if \<not> hasUncertainty then 2/10 else 0))"

definition determineConfidence ::
  "string \<Rightarrow> SourceCitation list \<Rightarrow> RetrievedChunk list \<Rightarrow> ConfidenceLevel" where
  "determineConfidence s cs chunks =
     (if hasNoInfoAdmission s then insufficient
      else (let sc = confidenceScore s cs
            in if sc \<ge> 8/10 then high
               else if sc \<ge> 5/10 then medium
               else if sc \<ge> 3/10 then low
               else insufficient))"

definition hallucinationMarkers :: "string list" where
  "hallucinationMarkers =
     [''according to my knowledge'', ''as an ai'', ''i believe'', ''in my opinion'',
      ''typically'', ''usually'', ''generally'']"

definition checkGrounding :: "string \<Rightarrow> SourceCitation list \<Rightarrow> bool" where
  "checkGrounding s cs =
     (if length cs = 0 then False
      else \<not> list_ex (includesStr (toLowerCase s)) hallucinationMarkers)"

definition cleanAnswer :: "string \<Rightarrow> string" where
  "cleanAnswer s = trim s"

definition process :: "LLMResponse \<Rightarrow> RetrievedChunk list \<Rightarrow> int \<Rightarrow> ProcessedResponse" where
  "process llmResponse chunks timeMs =
     (let s = llmContent llmResponse;
          citations = extractCitations s chunks;
          conf = determineConfidence s citations chunks;
          grounded = checkGrounding s citations
      in \<lparr> answer = cleanAnswer s,
           sources = citations,
           confidence = conf,
           respMetadata =
             \<lparr> processingTimeMs = timeMs,
               chunksUsed = length chunks,
               tokensUsed = llmTokensUsed llmResponse,
               modelUsed = Some (llmModel llmResponse),
               hasCitations = (length citations > 0),
               isGrounded = grounded \<rparr> \<rparr>)"

definition noInfoAnswer :: string where
  "noInfoAnswer =
     ''I don't have enough information in the indexed documentation to answer that question.''
     @ [CHR 0x0A, CHR 0x0A] @ ''You can:'' @ [CHR 0x0A]
     @ ''1. Try rephrasing your question'' @ [CHR 0x0A]
     @ ''2. Add relevant documentation with `robotin add <file>`'' @ [CHR 0x0A]
     @ ''3. Check if the topic exists under a different name''"

definition processNoInfoResponse :: "int \<Rightarrow> ProcessedResponse" where
  "processNoInfoResponse timeMs =
     \<lparr> answer = noInfoAnswer,
       sources = [],
       confidence = insufficient,
       respMetadata =
         \<lparr> processingTimeMs = timeMs,
           chunksUsed = 0,
           tokensUsed = None,
           modelUsed = None,
           hasCitations = False,
           isGrounded = True \<rparr> \<rparr>"

section \<open>LLM service (llm.service.ts)\<close>

datatype Role = system | user | assistant

record Message =
  role :: Role
  msgContent :: string

record LLMOptions =
  temperature :: "rat option"
  maxTokens :: "nat option"
  model :: "string option"

text \<open>
  A provider as the service sees it during one \<open>chat\<close>: its name, whether the
  availability probe answers (or throws, \<open>Inl\<close> with the message), and what its own
  \<open>chat\<close> does with the messages: a response, or a thrown error's message.
\<close>

record LLMProvider =
  provName :: string
  provIsAvailable :: "string + bool"
  provChat :: "Message list \<Rightarrow> LLMOptions \<Rightarrow> string + LLMResponse"

record Config =
  lmStudioHost :: string
  lmStudioModel :: string
  deepseekApiKey :: "string option"
  kimiApiKey :: "string option"
  openaiApiKey :: "string option"
  openaiModel :: string

text \<open>The provider classes' constructors; what the objects do depends on the network.\<close>

record ProviderClasses =
  newLMStudioProvider :: "string \<Rightarrow> string \<Rightarrow> LLMProvider"
  newDeepSeekProvider :: "string \<Rightarrow> LLMProvider"
  newKimiProvider :: "string \<Rightarrow> LLMProvider"
  newOpenAIProvider :: "string \<Rightarrow> string \<Rightarrow> LLMProvider"

record LLMService =
  config :: Config
  providers :: "LLMProvider list"
  isInitialized :: bool

text \<open>An API key counts as configured when it is a non-empty string.\<close>

definition configured :: "string option \<Rightarrow> bool" where
  "configured k = (case k of Some s \<Rightarrow> s \<noteq> [] | None \<Rightarrow> False)"

definition initialize :: "ProviderClasses \<Rightarrow> LLMService \<Rightarrow> LLMService" where
  "initialize cls svc =
     (if isInitialized svc then svc
      else
        (let c = config svc;
             p1 = providers svc @ [newLMStudioProvider cls (lmStudioHost c) (lmStudioModel c)];
             p2 = (if configured (deepseekApiKey c)
                   then p1 @ [newDeepSeekProvider cls (the (deepseekApiKey c))] else p1);
             p3 = (if configured (kimiApiKey c)
                   then p2 @ [newKimiProvider cls (the (kimiApiKey c))] else p2);
             p4 = (if configured (openaiApiKey c)
                   then p3 @ [newOpenAIProvider cls (the (openaiApiKey c)) (openaiModel c)]
                   else p3)
         in svc\<lparr>providers := p4, isInitialized := True\<rparr>))"

definition aggregateMessage :: "(string \<times> string) list \<Rightarrow> string" where
  "aggregateMessage errors =
     ''All LLM providers failed: ''
     @ joinWith '', '' (map (\<lambda>(provider, err). provider @ '' ('' @ err @ '')'') errors)"

text \<open>
  The loop over the providers with its \<open>errors\<close> array. An unavailable provider is
  skipped (\<open>continue\<close>); an error thrown by the probe or by the call is caught and
  recorded; the first response is returned; after the loop the aggregate error is thrown.
  Logging, and the cost estimate computed for the log line, are left out.
\<close>

fun chatLoop ::
  "LLMProvider list \<Rightarrow> Message list \<Rightarrow> LLMOptions \<Rightarrow> (string \<times> string) list
     \<Rightarrow> string + LLMResponse" where
  "chatLoop [] messages options errors = Inl (aggregateMessage errors)"
| "chatLoop (provider # rest) messages options errors =
     (case provIsAvailable provider of
        Inl e \<Rightarrow> chatLoop rest messages options (errors @ [(provName provider, e)])
      | Inr available \<Rightarrow>
          if \<not> available then chatLoop rest messages options errors
          else (case provChat provider messages options of
                  Inr response \<Rightarrow> Inr response
                | Inl e \<Rightarrow> chatLoop rest messages options (errors @ [(provName provider, e)])))"

definition chat ::
  "ProviderClasses \<Rightarrow> LLMService \<Rightarrow> Message list \<Rightarrow> LLMOptions
     \<Rightarrow> (string + LLMResponse) \<times> LLMService" where
  "chat cls svc messages options =
     (let svc' = initialize cls svc
      in (chatLoop (providers svc') messages options [], svc'))"

section \<open>Query engine (query-engine.ts)\<close>

record QueryOptions =
  qProjectId :: "string field"
  qFormat :: "ResponseFormat field"
  qTemperature :: "rat field"
  qMaxTokens :: "nat field"
  qIncludeSources :: "bool field"

definition DEFAULT_QUERY_OPTIONS :: QueryOptions where
  "DEFAULT_QUERY_OPTIONS =
     \<lparr> qProjectId = Absent, qFormat = Value markdown, qTemperature = Value 0,
       qMaxTokens = Value 1024, qIncludeSources = Value True \<rparr>"

definition mergeQueryOptions :: "QueryOptions \<Rightarrow> QueryOptions \<Rightarrow> QueryOptions" where
  "mergeQueryOptions a b =
     \<lparr> qProjectId = spread (qProjectId a) (qProjectId b),
       qFormat = spread (qFormat a) (qFormat b),
       qTemperature = spread (qTemperature a) (qTemperature b),
       qMaxTokens = spread (qMaxTokens a) (qMaxTokens b),
       qIncludeSources = spread (qIncludeSources a) (qIncludeSources b) \<rparr>"

record QueryMetadata =
  queryTimeMs :: int
  retrievalTimeMs :: int
  generationTimeMs :: int
  chunksRetrieved :: nat
  resultTokensUsed :: "nat option"
  resultModelUsed :: "string option"

record QueryResult =
  success :: bool
  resultAnswer :: string
  resultSources :: "RetrievedChunk list"
  resultConfidence :: ConfidenceLevel
  resultMetadata :: QueryMetadata
  error :: "string option"

text \<open>
  The options object literal of the \<open>retrieve\<close> call: reading \<open>opts.projectId\<close>
  gives \<open>undefined\<close> when the property is absent, and the literal always has the three
  properties.
\<close>

definition retrievalOptionsOfQuery :: "QueryOptions \<Rightarrow> RetrievalOptions" where
  "retrievalOptionsOfQuery opts =
     \<lparr> optProjectId = (case qProjectId opts of Absent \<Rightarrow> Undefined | p \<Rightarrow> p),
       optDocumentTypes = Absent,
       optLimit = Value 10,
       optThreshold = Value (6/10),
       optRerank = Absent,
       optDeduplicate = Absent \<rparr>"

definition failedResult :: "int \<Rightarrow> string \<Rightarrow> QueryResult" where
  "failedResult elapsed errorMessage =
     \<lparr> success = False, resultAnswer = [], resultSources = [],
       resultConfidence = insufficient,
       resultMetadata =
         \<lparr> queryTimeMs = elapsed, retrievalTimeMs = 0, generationTimeMs = 0,
           chunksRetrieved = 0, resultTokensUsed = None, resultModelUsed = None \<rparr>,
       error = Some errorMessage \<rparr>"

text \<open>
  \<open>query\<close> with its collaborators as parameters: \<open>search\<close> (embedding and vector
  search, as in \<open>retrieve\<close>), \<open>generate\<close> (the \<open>llm.generate\<close> call; the
  service class of llm.service.ts defines no such method) and \<open>now\<close>, the readings of
  \<open>Date.now()\<close>. Thrown errors are messages; the \<open>catch\<close> turns them into a failed
  result.
\<close>

definition query ::
  "(string \<Rightarrow> SearchOptions \<Rightarrow> string + SearchResult list)
     \<Rightarrow> (string \<Rightarrow> LLMOptions \<Rightarrow> string + LLMResponse)
     \<Rightarrow> (nat \<Rightarrow> int) \<Rightarrow> string \<Rightarrow> QueryOptions \<Rightarrow> QueryResult" where
  "query search generate now question options =
     (let opts = mergeQueryOptions DEFAULT_QUERY_OPTIONS options;
          startTime = now 0;
          analyzed = analyze question;
          retrievalStart = now 1
      in case retrieve search analyzed (retrievalOptionsOfQuery opts) of
           Inl e \<Rightarrow> failedResult (now 2 - startTime) e
         | Inr chunks \<Rightarrow>
             (let retrievalTime = now 2 - retrievalStart
              in if length chunks = 0 then
                   (let processed = processNoInfoResponse (now 3 - startTime)
                    in \<lparr> success = True, resultAnswer = answer processed, resultSources = [],
                         resultConfidence = insufficient,
                         resultMetadata =
                           \<lparr> queryTimeMs = now 4 - startTime,
                             retrievalTimeMs = retrievalTime, generationTimeMs = 0,
                             chunksRetrieved = 0, resultTokensUsed = None,
                             resultModelUsed = None \<rparr>,
                         error = None \<rparr>)
                 else
                   (let prompt = build analyzed chunks
                                   (case valueOf (qFormat opts) of
                                      Some f \<Rightarrow> f | None \<Rightarrow> markdown);
                        generationStart = now 3;
                        llmOptions = \<lparr> temperature = valueOf (qTemperature opts),
                                       maxTokens = valueOf (qMaxTokens opts),
                                       model = None \<rparr>
                    in case generate (userPrompt prompt) llmOptions of
                         Inl e \<Rightarrow> failedResult (now 4 - startTime) e
                       | Inr llmResponse \<Rightarrow>
                           (let generationTime = now 4 - generationStart;
                                processed = process llmResponse (contextChunks prompt)
                                              (now 5 - startTime);
                                totalTime = now 6 - startTime
                            in \<lparr> success = True, resultAnswer = answer processed,
                                 resultSources =
                                   (if valueOf (qIncludeSources opts) = Some True
                                    then chunks else []),
                                 resultConfidence = confidence processed,
                                 resultMetadata =
                                   \<lparr> queryTimeMs = totalTime,
                                     retrievalTimeMs = retrievalTime,
                                     generationTimeMs = generationTime,
                                     chunksRetrieved = length chunks,
                                     resultTokensUsed = llmTokensUsed llmResponse,
                                     resultModelUsed = Some (llmModel llmResponse) \<rparr>,
                                 error = None \<rparr>))))"

section \<open>Notions used in the statements\<close>

text \<open>
  The six ungrounded-knowledge phrasings as the specification lists them (the source's
  own list is \<open>hallucinationMarkers\<close>).
\<close>

definition specUngroundedPhrases :: "string list" where
  "specUngroundedPhrases =
     [''according to my knowledge'', ''as an ai'', ''typically'', ''usually'',
      ''generally'', ''in my opinion'']"

text \<open>The running total of the selection loop: the sum of the chunks' estimates.\<close>

definition tokensOf :: "RetrievedChunk list \<Rightarrow> nat" where
  "tokensOf xs = sum_list (map chunkTokens xs)"

text \<open>
  What one provider contributes to the \<open>errors\<close> array: the message thrown by its
  probe or by its call, nothing when it is skipped as unavailable or when it answers.
\<close>

definition failureReason :: "LLMProvider \<Rightarrow> Message list \<Rightarrow> LLMOptions \<Rightarrow> string option" where
  "failureReason p messages options =
     (case provIsAvailable p of
        Inl e \<Rightarrow> Some e
      | Inr available \<Rightarrow>
          if \<not> available then None
          else (case provChat p messages options of Inl e \<Rightarrow> Some e | Inr r \<Rightarrow> None))"

definition recordedErrors ::
  "LLMProvider list \<Rightarrow> Message list \<Rightarrow> LLMOptions \<Rightarrow> (string \<times> string) list" where
  "recordedErrors ps messages options =
     List.map_filter
       (\<lambda>p. map_option (\<lambda>e. (provName p, e)) (failureReason p messages options)) ps"

text \<open>The provider is skipped by the probe, or its probe or call throws.\<close>

definition unavailableOrFails :: "LLMProvider \<Rightarrow> Message list \<Rightarrow> LLMOptions \<Rightarrow> bool" where
  "unavailableOrFails p messages options =
     (case provIsAvailable p of
        Inl e \<Rightarrow> True
      | Inr available \<Rightarrow>
          if \<not> available then True
          else (case provChat p messages options of Inl e \<Rightarrow> True | Inr r \<Rightarrow> False))"

text \<open>The entries of \<open>seen\<close> are keyed by the fingerprint of their chunk, once each.\<close>

definition seenOk :: "(string \<times> RetrievedChunk) list \<Rightarrow> bool" where
  "seenOk seen =
     (distinct (map fst seen) \<and> list_all (\<lambda>(k, v). k = createFingerprint (content v)) seen)"

section \<open>Example inputs\<close>

text \<open>Chunks of 10, 4000 and 4001 estimated tokens.\<close>

definition tokenChunk :: RetrievedChunk where
  "tokenChunk =
     \<lparr> chunkId = ''c1'', documentId = ''d1'', projectId = ''p'',
       content = ''Tokens are issued by the auth service.'',
       relevance = 95/100,
       metadata = \<lparr> documentType = TXT, sectionName = None, weight = 1 \<rparr>,
       rank = 1, score = 1, duplicateOf = None \<rparr>"

definition bigChunk :: RetrievedChunk where
  "bigChunk =
     \<lparr> chunkId = ''big'', documentId = ''d1'', projectId = ''p'',
       content = replicate 16000 (CHR ''a''),
       relevance = 9/10,
       metadata = \<lparr> documentType = TXT, sectionName = None, weight = 0 \<rparr>,
       rank = 1, score = 9/10, duplicateOf = None \<rparr>"

definition hugeChunk :: RetrievedChunk where
  "hugeChunk = bigChunk \<lparr> chunkId := ''huge'', content := replicate 16004 (CHR ''a'') \<rparr>"

text \<open>A response with the given text, and collaborators that find nothing.\<close>

definition mkResponse :: "string \<Rightarrow> LLMResponse" where
  "mkResponse s =
     \<lparr> llmContent = s, llmTokensUsed = None, llmModel = ''m'', llmProvider = lmstudio \<rparr>"

definition noResults :: "string \<Rightarrow> SearchOptions \<Rightarrow> string + SearchResult list" where
  "noResults q so = Inr []"

definition neverGenerate :: "string \<Rightarrow> LLMOptions \<Rightarrow> string + LLMResponse" where
  "neverGenerate p lo = Inl ''generation must not be called''"

text \<open>
  Three search results, the second a near-duplicate of the first (same text up to case
  and spacing), and retrieval options that leave every default in place.
\<close>

definition helloResult :: SearchResult where
  "helloResult =
     \<lparr> chunkId = ''a'', documentId = ''d1'', projectId = ''p'',
       content = ''Hello World'', relevance = 9/10,
       metadata = \<lparr> documentType = TXT, sectionName = None, weight = 0 \<rparr> \<rparr>"

definition helloAgainResult :: SearchResult where
  "helloAgainResult =
     helloResult \<lparr> chunkId := ''b'', content := ''hello   world'', relevance := 8/10 \<rparr>"

definition otherResult :: SearchResult where
  "otherResult =
     helloResult \<lparr> chunkId := ''c'', content := ''Other text'', relevance := 7/10 \<rparr>"

definition threeResults :: "string \<Rightarrow> SearchOptions \<Rightarrow> string + SearchResult list" where
  "threeResults q so = Inr [helloResult, helloAgainResult, otherResult]"

definition noRetrievalOptions :: RetrievalOptions where
  "noRetrievalOptions =
     \<lparr> optProjectId = Absent, optDocumentTypes = Absent, optLimit = Absent,
       optThreshold = Absent, optRerank = Absent, optDeduplicate = Absent \<rparr>"

text \<open>Chunks with scores 0.9 and 0.7 and colliding fingerprints, and an unrelated one.\<close>

definition helloA :: RetrievedChunk where
  "helloA =
     \<lparr> chunkId = ''a'', documentId = ''d1'', projectId = ''p'',
       content = ''Hello World'', relevance = 9/10,
       metadata = \<lparr> documentType = TXT, sectionName = None, weight = 0 \<rparr>,
       rank = 1, score = 9/10, duplicateOf = None \<rparr>"

definition helloB :: RetrievedChunk where
  "helloB =
     helloA \<lparr> chunkId := ''b'', content := ''hello   world'', relevance := 7/10,
              rank := 2, score := 7/10 \<rparr>"

definition otherC :: RetrievedChunk where
  "otherC =
     helloA \<lparr> chunkId := ''c'', content := ''Other text'', relevance := 5/10,
              rank := 3, score := 5/10 \<rparr>"

text \<open>
  A service with LM Studio not running and an OpenAI key that the API rejects.
\<close>

definition offlineLMStudio :: LLMProvider where
  "offlineLMStudio =
     \<lparr> provName = ''lmstudio'', provIsAvailable = Inr False,
       provChat = (\<lambda>messages options. Inl ''fetch failed'') \<rparr>"

definition rejectingOpenAI :: LLMProvider where
  "rejectingOpenAI =
     \<lparr> provName = ''openai'', provIsAvailable = Inr True,
       provChat = (\<lambda>messages options. Inl ''OpenAI error: 401'') \<rparr>"

definition offlineClasses :: ProviderClasses where
  "offlineClasses =
     \<lparr> newLMStudioProvider = (\<lambda>host m. offlineLMStudio),
       newDeepSeekProvider = (\<lambda>key. rejectingOpenAI\<lparr>provName := ''deepseek''\<rparr>),
       newKimiProvider = (\<lambda>key. rejectingOpenAI\<lparr>provName := ''kimi''\<rparr>),
       newOpenAIProvider = (\<lambda>key m. rejectingOpenAI) \<rparr>"

definition freshService :: LLMService where
  "freshService =
     \<lparr> config = \<lparr> lmStudioHost = ''http://localhost:1234'', lmStudioModel = ''local'',
                    deepseekApiKey = None, kimiApiKey = None,
                    openaiApiKey = Some ''sk-test'', openaiModel = ''gpt-4o'' \<rparr>,
       providers = [], isInitialized = False \<rparr>"

definition noOptions :: LLMOptions where
  "noOptions = \<lparr> temperature = None, maxTokens = None, model = None \<rparr>"

section \<open>Properties of the response processor\<close>

lemma includesStr_iff: "includesStr s sub \<longleftrightarrow> (\<exists>p q. s = p @ sub @ q)"
proof (induction s)
  case Nil
  then show ?case by auto
next
  case (Cons c cs)
  show ?case
  proof
    assume "includesStr (c # cs) sub"
    then consider "prefix sub (c # cs)" | "includesStr cs sub" by auto
    then show "\<exists>p q. c # cs = p @ sub @ q"
    proof cases
      case 1
      then obtain q where "c # cs = sub @ q" by (auto simp: prefix_def)
      then have "c # cs = [] @ sub @ q" by simp
      then show ?thesis by blast
    next
      case 2
      then obtain p q where "cs = p @ sub @ q" using Cons.IH by blast
      then have "c # cs = (c # p) @ sub @ q" by simp
      then show ?thesis by blast
    qed
  next
    assume "\<exists>p q. c # cs = p @ sub @ q"
    then obtain p q where pq: "c # cs = p @ sub @ q" by blast
    show "includesStr (c # cs) sub"
    proof (cases p)
      case Nil
      then have "prefix sub (c # cs)" using pq by (simp add: prefix_def)
      then show ?thesis by simp
    next
      case (Cons a p')
      then have "cs = p' @ sub @ q" using pq by simp
      then have "includesStr cs sub" using Cons.IH by blast
      then show ?thesis by simp
    qed
  qed
qed

lemma confidenceScore_nil: "confidenceScore s [] < 3/10"
  by (simp add: confidenceScore_def avgRelevance_def nanGreater_def Let_def)

lemma confidenceScore_cited: "cs \<noteq> [] \<Longrightarrow> 3/10 \<le> confidenceScore s cs"
  by (simp add: confidenceScore_def Let_def)

lemma determineConfidence_insufficient_iff:
  "(determineConfidence s cs chunks = insufficient) = (cs = [] \<or> hasNoInfoAdmission s)"
proof (cases "hasNoInfoAdmission s")
  case True
  then show ?thesis by (simp add: determineConfidence_def)
next
  case False
  show ?thesis
  proof (cases "cs = []")
    case True
    with False confidenceScore_nil [of s] show ?thesis
      by (simp add: determineConfidence_def Let_def)
  next
    case ne: False
    with False confidenceScore_cited [of cs s] show ?thesis
      by (simp add: determineConfidence_def Let_def)
  qed
qed

lemma extractCitations_no_markers: "citedMatches s = [] \<Longrightarrow> extractCitations s chunks = []"
  by (simp add: extractCitations_def citedNumbers_def List.map_filter_simps)

text \<open>
  C1. The confidence of a processed response is \<open>insufficient\<close> exactly when no
  citation was resolved from the answer text or the text contains one of the three
  no-information admissions; in particular a text without any citation marker gives
  \<open>insufficient\<close> (and is not grounded), whatever the chunks and their scores are.
\<close>

theorem process_confidence_insufficient_iff:
  "(confidence (process r chunks t) = insufficient)
     = (sources (process r chunks t) = [] \<or> hasNoInfoAdmission (llmContent r))
   \<and> (citedMatches (llmContent r) = [] \<longrightarrow>
        confidence (process r chunks t) = insufficient
        \<and> isGrounded (respMetadata (process r chunks t)) = False)"
  by (simp add: process_def Let_def determineConfidence_insufficient_iff
        extractCitations_no_markers checkGrounding_def)

theorem process_confidence_insufficient_iff_witness:
  "citedMatches (llmContent (mkResponse ''The flow uses tokens.'')) = []
   \<and> confidence (process (mkResponse ''The flow uses tokens.'') [tokenChunk] 5) = insufficient
   \<and> isGrounded (respMetadata (process (mkResponse ''The flow uses tokens.'') [tokenChunk] 5))
       = False"
proof -
  have h: "citedMatches (llmContent (mkResponse ''The flow uses tokens.'')) = []"
    by (simp add: mkResponse_def matchCitationAt_def)
  from process_confidence_insufficient_iff
         [of "mkResponse ''The flow uses tokens.''" "[tokenChunk]" 5] h
  show ?thesis by blast
qed

text \<open>
  C7, as stated, fails: the answer \<open>I believe the flow uses tokens [source:1]\<close> has one
  resolved citation and none of the six phrasings of the claim, yet it is reported as not
  grounded, because the source's list has a seventh phrasing, \<open>i believe\<close>.
\<close>

theorem checkGrounding_spec_phrases_counterexample:
  "sources (process (mkResponse ''I believe the flow uses tokens [source:1]'') [tokenChunk] 5)
     \<noteq> []
   \<and> \<not> list_ex (includesStr (toLowerCase ''I believe the flow uses tokens [source:1]''))
         specUngroundedPhrases
   \<and> isGrounded (respMetadata
        (process (mkResponse ''I believe the flow uses tokens [source:1]'') [tokenChunk] 5))
       = False"
  by code_simp

text \<open>
  C7, amended. The answer is reported grounded exactly when at least one citation was
  resolved and the lower-cased text contains none of the seven phrasings
  \<open>according to my knowledge\<close>, \<open>as an ai\<close>, \<open>i believe\<close>, \<open>in my opinion\<close>,
  \<open>typically\<close>, \<open>usually\<close>, \<open>generally\<close>.
\<close>

theorem checkGrounding_iff:
  "isGrounded (respMetadata (process r chunks t))
     = (sources (process r chunks t) \<noteq> []
        \<and> \<not> list_ex (includesStr (toLowerCase (llmContent r)))
              [''according to my knowledge'', ''as an ai'', ''i believe'', ''in my opinion'',
               ''typically'', ''usually'', ''generally''])"
  by (simp add: process_def Let_def checkGrounding_def hallucinationMarkers_def)

lemma rankChunks_nil: "rankChunks opts a [] = []"
  by (simp add: rankChunks_def rerank_def reassignRanks_def deduplicate_def sliceTo_def
        split: option.splits)

text \<open>
  C9. The canned response of the zero-passage path is marked grounded, has no citations
  and no sources, although the grounding check itself rejects it (it has no citation);
  \<open>query\<close> answers with it, as a success of confidence \<open>insufficient\<close>,
  whenever retrieval returns no chunk.
\<close>

theorem processNoInfoResponse_grounded_without_citation:
  "isGrounded (respMetadata (processNoInfoResponse t)) = True
   \<and> hasCitations (respMetadata (processNoInfoResponse t)) = False
   \<and> sources (processNoInfoResponse t) = []
   \<and> confidence (processNoInfoResponse t) = insufficient
   \<and> checkGrounding (answer (processNoInfoResponse t)) (sources (processNoInfoResponse t))
       = False
   \<and> (retrieve search (analyze question)
         (retrievalOptionsOfQuery (mergeQueryOptions DEFAULT_QUERY_OPTIONS options)) = Inr []
       \<longrightarrow> success (query search generate now question options) = True
           \<and> resultAnswer (query search generate now question options)
               = answer (processNoInfoResponse t)
           \<and> resultSources (query search generate now question options) = []
           \<and> resultConfidence (query search generate now question options) = insufficient
           \<and> error (query search generate now question options) = None)"
  by (simp add: processNoInfoResponse_def checkGrounding_def query_def Let_def)

theorem processNoInfoResponse_grounded_without_citation_witness:
  "retrieve noResults (analyze ''What is the authentication flow?'')
         (retrievalOptionsOfQuery (mergeQueryOptions DEFAULT_QUERY_OPTIONS DEFAULT_QUERY_OPTIONS))
     = Inr []
   \<and> success (query noResults neverGenerate (\<lambda>k. int k) ''What is the authentication flow?''
        DEFAULT_QUERY_OPTIONS) = True
   \<and> resultAnswer (query noResults neverGenerate (\<lambda>k. int k)
        ''What is the authentication flow?'' DEFAULT_QUERY_OPTIONS) = noInfoAnswer
   \<and> resultConfidence (query noResults neverGenerate (\<lambda>k. int k)
        ''What is the authentication flow?'' DEFAULT_QUERY_OPTIONS) = insufficient
   \<and> isGrounded (respMetadata (processNoInfoResponse 3)) = True"
proof -
  have h: "retrieve noResults (analyze ''What is the authentication flow?'')
         (retrievalOptionsOfQuery (mergeQueryOptions DEFAULT_QUERY_OPTIONS DEFAULT_QUERY_OPTIONS))
     = Inr []"
    by (simp add: retrieve_def noResults_def rankChunks_nil Let_def)
  have a: "answer (processNoInfoResponse 3) = noInfoAnswer"
    by (simp add: processNoInfoResponse_def)
  from processNoInfoResponse_grounded_without_citation
         [of 3 noResults "''What is the authentication flow?''" DEFAULT_QUERY_OPTIONS
             neverGenerate "\<lambda>k. int k"] h a
  show ?thesis by simp
qed

section \<open>Properties of the query engine and the analyzer\<close>


text \<open>
  C10. The confidence of \<open>analyze\<close> is 0.5, plus 0.1 for a normalized query longer
  than 20 characters, plus 0.1 for one longer than 50, plus 0.2 for an intent other than
  \<open>general\<close>, minus 0.2 for one shorter than 10; it lies between 0.3 and 0.9, so
  the clamp to 0 and 1 never applies.
\<close>

theorem analyze_confidence_bounds:
  "queryConfidence (analyze q)
     = 5/10
       + (if length (normalized (analyze q)) > 20 then 1/10 else 0)
       + (if length (normalized (analyze q)) > 50 then 1/10 else 0)
       + (if intent (analyze q) \<noteq> General then 2/10 else 0)
       - (if length (normalized (analyze q)) < 10 then 2/10 else 0)
   \<and> 3/10 \<le> queryConfidence (analyze q) \<and> queryConfidence (analyze q) \<le> 9/10
   \<and> queryConfidence (analyze q) \<noteq> 0 \<and> queryConfidence (analyze q) \<noteq> 1"
  by (simp add: analyze_def calculateConfidence_def Let_def)


section \<open>Properties of the prompt builder\<close>

lemma tokensOf_simps [simp]:
  "tokensOf [] = 0" "tokensOf (x # xs) = chunkTokens x + tokensOf xs"
  "tokensOf (xs @ ys) = tokensOf xs + tokensOf ys"
  by (simp_all add: tokensOf_def)

lemma selectLoop_spec:
  "\<exists>n\<le>length rest.
      selectLoop rest sel est = sel @ take n rest
      \<and> (\<forall>k<n. sel @ take k rest \<noteq> [] \<longrightarrow> est + tokensOf (take (Suc k) rest) \<le> MAX_CONTEXT_TOKENS)
      \<and> (n < length rest \<longrightarrow>
           est + tokensOf (take (Suc n) rest) > MAX_CONTEXT_TOKENS \<and> sel @ take n rest \<noteq> [])"
proof (induction rest arbitrary: sel est)
  case Nil
  show ?case by simp
next
  case (Cons c rest)
  show ?case
  proof (cases "est + chunkTokens c > MAX_CONTEXT_TOKENS \<and> length sel > 0")
    case True
    then have "selectLoop (c # rest) sel est = sel @ take 0 (c # rest)" by simp
    moreover have "est + tokensOf (take (Suc 0) (c # rest)) > MAX_CONTEXT_TOKENS"
      using True by simp
    moreover have "sel @ take 0 (c # rest) \<noteq> []" using True by simp
    ultimately show ?thesis by (intro exI [of _ 0]) simp
  next
    case False
    then have step: "selectLoop (c # rest) sel est
                      = selectLoop rest (sel @ [c]) (est + chunkTokens c)"
      by auto
    from Cons.IH [of "sel @ [c]" "est + chunkTokens c"]
    obtain n where n: "n \<le> length rest"
      and eq: "selectLoop rest (sel @ [c]) (est + chunkTokens c) = (sel @ [c]) @ take n rest"
      and within: "\<forall>k<n. (sel @ [c]) @ take k rest \<noteq> [] \<longrightarrow>
                     (est + chunkTokens c) + tokensOf (take (Suc k) rest) \<le> MAX_CONTEXT_TOKENS"
      and stop: "n < length rest \<longrightarrow>
                   (est + chunkTokens c) + tokensOf (take (Suc n) rest) > MAX_CONTEXT_TOKENS
                   \<and> (sel @ [c]) @ take n rest \<noteq> []"
      by blast
    have a: "selectLoop (c # rest) sel est = sel @ take (Suc n) (c # rest)"
      using step eq by simp
    have b: "\<forall>k<Suc n. sel @ take k (c # rest) \<noteq> [] \<longrightarrow>
               est + tokensOf (take (Suc k) (c # rest)) \<le> MAX_CONTEXT_TOKENS"
    proof (intro allI impI)
      fix k assume k: "k < Suc n" and ne: "sel @ take k (c # rest) \<noteq> []"
      show "est + tokensOf (take (Suc k) (c # rest)) \<le> MAX_CONTEXT_TOKENS"
      proof (cases k)
        case 0
        then have "sel \<noteq> []" using ne by simp
        then show ?thesis using False 0 by simp
      next
        case (Suc k')
        then have "k' < n" using k by simp
        then have "(est + chunkTokens c) + tokensOf (take (Suc k') rest) \<le> MAX_CONTEXT_TOKENS"
          using within by simp
        then show ?thesis using Suc by (simp add: add.assoc)
      qed
    qed
    have c: "Suc n < length (c # rest) \<longrightarrow>
               est + tokensOf (take (Suc (Suc n)) (c # rest)) > MAX_CONTEXT_TOKENS
               \<and> sel @ take (Suc n) (c # rest) \<noteq> []"
      using stop by (simp add: add.assoc)
    from n a b c show ?thesis by (intro exI [of _ "Suc n"]) simp
  qed
qed

lemma selectChunks_spec:
  "\<exists>n\<le>length chunks.
      selectChunks chunks = take n chunks
      \<and> (\<forall>k<n. 1 \<le> k \<longrightarrow> tokensOf (take (Suc k) chunks) \<le> MAX_CONTEXT_TOKENS)
      \<and> (n < length chunks \<longrightarrow> tokensOf (take (Suc n) chunks) > MAX_CONTEXT_TOKENS \<and> 1 \<le> n)"
proof -
  from selectLoop_spec [of chunks "[]" 0]
  obtain n where n: "n \<le> length chunks"
    and eq: "selectLoop chunks [] 0 = take n chunks"
    and within: "\<forall>k<n. take k chunks \<noteq> [] \<longrightarrow> tokensOf (take (Suc k) chunks) \<le> MAX_CONTEXT_TOKENS"
    and stop: "n < length chunks \<longrightarrow>
                 tokensOf (take (Suc n) chunks) > MAX_CONTEXT_TOKENS \<and> take n chunks \<noteq> []"
    by auto
  have w: "\<forall>k<n. 1 \<le> k \<longrightarrow> tokensOf (take (Suc k) chunks) \<le> MAX_CONTEXT_TOKENS"
  proof (intro allI impI)
    fix k assume "k < n" "1 \<le> k"
    then have "take k chunks \<noteq> []" using n by (cases chunks) auto
    then show "tokensOf (take (Suc k) chunks) \<le> MAX_CONTEXT_TOKENS"
      using within \<open>k < n\<close> by simp
  qed
  have s: "n < length chunks \<longrightarrow> tokensOf (take (Suc n) chunks) > MAX_CONTEXT_TOKENS \<and> 1 \<le> n"
    using stop by (cases n) auto
  from n eq w s show ?thesis unfolding selectChunks_def by blast
qed

lemma selectChunks_facts:
  "selectChunks chunks = take (length (selectChunks chunks)) chunks
   \<and> (\<forall>k. 1 \<le> k \<and> k < length (selectChunks chunks) \<longrightarrow>
          tokensOf (take (Suc k) chunks) \<le> MAX_CONTEXT_TOKENS)
   \<and> (length (selectChunks chunks) < length chunks \<longrightarrow>
          tokensOf (take (Suc (length (selectChunks chunks))) chunks) > MAX_CONTEXT_TOKENS)
   \<and> (chunks \<noteq> [] \<longrightarrow> selectChunks chunks \<noteq> [] \<and> hd (selectChunks chunks) = hd chunks)"
proof -
  from selectChunks_spec [of chunks]
  obtain n where n: "n \<le> length chunks"
    and eq: "selectChunks chunks = take n chunks"
    and within: "\<forall>k<n. 1 \<le> k \<longrightarrow> tokensOf (take (Suc k) chunks) \<le> MAX_CONTEXT_TOKENS"
    and stop: "n < length chunks \<longrightarrow> tokensOf (take (Suc n) chunks) > MAX_CONTEXT_TOKENS \<and> 1 \<le> n"
    by blast
  have len: "length (selectChunks chunks) = n" using eq n by simp
  have d: "chunks \<noteq> [] \<longrightarrow> selectChunks chunks \<noteq> [] \<and> hd (selectChunks chunks) = hd chunks"
  proof
    assume ne: "chunks \<noteq> []"
    have "1 \<le> n"
    proof (cases "n < length chunks")
      case True
      then show ?thesis using stop by simp
    next
      case False
      then show ?thesis using n ne by (cases chunks) auto
    qed
    then show "selectChunks chunks \<noteq> [] \<and> hd (selectChunks chunks) = hd chunks"
      using eq ne by (cases chunks; cases n) auto
  qed
  show ?thesis using eq within stop d unfolding len by auto
qed

lemma joinWith_Cons: "\<exists>r. joinWith sep (x # xs) = x @ r"
  by (cases xs) auto

lemma renderSource_first:
  "renderSource c 0
     = ''### Source 1'' @ [CHR 0x0A] @ ''**Metadata**: '' @ chunkMetadataLine c
       @ [CHR 0x0A, CHR 0x0A] @ content c"
  by (simp add: renderSource_def decDigit_def)

lemma buildContextSection_first:
  assumes "sel \<noteq> []"
  shows "\<exists>r. buildContextSection sel
           = ''## Context'' @ [CHR 0x0A, CHR 0x0A] @ ''### Source 1'' @ [CHR 0x0A]
             @ ''**Metadata**: '' @ chunkMetadataLine (hd sel) @ [CHR 0x0A, CHR 0x0A]
             @ content (hd sel) @ r"
proof -
  obtain c cs where sel: "sel = c # cs" using assms by (cases sel) auto
  have z: "zip sel [0..<length sel] = (c, 0) # zip cs [1..<Suc (length cs)]"
    unfolding sel by (simp add: upt_conv_Cons del: upt_Suc)
  have m: "map (\<lambda>(chunk, index). renderSource chunk index) (zip sel [0..<length sel])
             = renderSource c 0
               # map (\<lambda>(chunk, index). renderSource chunk index) (zip cs [1..<Suc (length cs)])"
    unfolding z by simp
  obtain r where r: "joinWith ([CHR 0x0A, CHR 0x0A] @ ''---'' @ [CHR 0x0A, CHR 0x0A])
                       (map (\<lambda>(chunk, index). renderSource chunk index)
                          (zip sel [0..<length sel]))
                     = renderSource c 0 @ r"
    unfolding m using joinWith_Cons by blast
  have "buildContextSection sel
          = ''## Context'' @ [CHR 0x0A, CHR 0x0A] @ renderSource c 0 @ r"
    unfolding buildContextSection_def r using assms by simp
  also have "\<dots> = ''## Context'' @ [CHR 0x0A, CHR 0x0A] @ ''### Source 1'' @ [CHR 0x0A]
             @ ''**Metadata**: '' @ chunkMetadataLine (hd sel) @ [CHR 0x0A, CHR 0x0A]
             @ content (hd sel) @ r"
    unfolding renderSource_first sel by simp
  finally show ?thesis by blast
qed

lemma build_contextChunks: "contextChunks (build q chunks f) = selectChunks chunks"
  by (simp add: build_def Let_def)

lemma build_userPrompt_first:
  assumes ne: "chunks \<noteq> []"
  shows "\<exists>r. userPrompt (build q chunks f)
            = ''## Context'' @ [CHR 0x0A, CHR 0x0A] @ ''### Source 1'' @ [CHR 0x0A]
              @ ''**Metadata**: '' @ chunkMetadataLine (hd chunks) @ [CHR 0x0A, CHR 0x0A]
              @ content (hd chunks) @ r"
proof -
  have s: "selectChunks chunks \<noteq> []" and h: "hd (selectChunks chunks) = hd chunks"
    using ne selectChunks_facts [of chunks] by auto
  from buildContextSection_first [OF s] obtain r where
    "buildContextSection (selectChunks chunks)
         = ''## Context'' @ [CHR 0x0A, CHR 0x0A] @ ''### Source 1'' @ [CHR 0x0A]
           @ ''**Metadata**: '' @ chunkMetadataLine (hd chunks) @ [CHR 0x0A, CHR 0x0A]
           @ content (hd chunks) @ r"
    unfolding h by blast
  then show ?thesis
    by (simp add: build_def Let_def buildUserPrompt_def)
qed

text \<open>
  C6. For a non-empty chunk list the prompt includes at least one passage, the first
  one, whatever its size, and renders it as Source 1 of the context section. The
  selection is a prefix of the list: every further passage in it kept the running total
  of the estimates within the budget, and the first passage left out, if there is one,
  would have taken the total beyond it.
\<close>

theorem selectChunks_includes_first_and_stops_at_budget:
  "contextChunks (build q chunks f) = selectChunks chunks
   \<and> selectChunks chunks = take (length (selectChunks chunks)) chunks
   \<and> (chunks \<noteq> [] \<longrightarrow>
        selectChunks chunks \<noteq> [] \<and> hd (selectChunks chunks) = hd chunks
        \<and> (\<exists>r. userPrompt (build q chunks f)
                  = ''## Context'' @ [CHR 0x0A, CHR 0x0A] @ ''### Source 1'' @ [CHR 0x0A]
                    @ ''**Metadata**: '' @ chunkMetadataLine (hd chunks) @ [CHR 0x0A, CHR 0x0A]
                    @ content (hd chunks) @ r))
   \<and> (\<forall>k. 1 \<le> k \<and> k < length (selectChunks chunks) \<longrightarrow>
          tokensOf (take (Suc k) chunks) \<le> MAX_CONTEXT_TOKENS)
   \<and> (length (selectChunks chunks) < length chunks \<longrightarrow>
          tokensOf (take (Suc (length (selectChunks chunks))) chunks) > MAX_CONTEXT_TOKENS)"
  using build_contextChunks [of q chunks f] build_userPrompt_first [of chunks q f]
    selectChunks_facts [of chunks]
  by blast

lemma chunkTokens_tokenChunk: "chunkTokens tokenChunk = 10"
  by (simp add: chunkTokens_def tokenChunk_def ceilRatio_def TOKEN_ESTIMATE_RATIO_def)

lemma chunkTokens_bigChunk: "chunkTokens bigChunk = 4000"
  by (simp add: chunkTokens_def bigChunk_def ceilRatio_def TOKEN_ESTIMATE_RATIO_def)

lemma chunkTokens_hugeChunk: "chunkTokens hugeChunk = 4001"
  by (simp add: chunkTokens_def hugeChunk_def bigChunk_def ceilRatio_def
        TOKEN_ESTIMATE_RATIO_def)

theorem selectChunks_includes_first_and_stops_at_budget_witness:
  "[tokenChunk, tokenChunk, bigChunk] \<noteq> []
   \<and> selectChunks [tokenChunk, tokenChunk, bigChunk] = [tokenChunk, tokenChunk]
   \<and> tokensOf (take (Suc 1) [tokenChunk, tokenChunk, bigChunk]) \<le> MAX_CONTEXT_TOKENS
   \<and> tokensOf (take (Suc 2) [tokenChunk, tokenChunk, bigChunk]) > MAX_CONTEXT_TOKENS
   \<and> chunkTokens hugeChunk > MAX_CONTEXT_TOKENS
   \<and> selectChunks [hugeChunk, tokenChunk] = [hugeChunk]
   \<and> contextChunks (build (analyze ''hi'') [hugeChunk, tokenChunk] markdown) \<noteq> []"
proof -
  let ?cs = "[tokenChunk, tokenChunk, bigChunk]"
  have sel: "selectChunks ?cs = [tokenChunk, tokenChunk]"
    by (simp add: selectChunks_def chunkTokens_tokenChunk chunkTokens_bigChunk
          MAX_CONTEXT_TOKENS_def)
  have k: "1 \<le> (1::nat) \<and> 1 < length (selectChunks ?cs)" using sel by simp
  have l: "length (selectChunks ?cs) < length ?cs" using sel by simp
  note t = selectChunks_includes_first_and_stops_at_budget [of "analyze ''hi''" ?cs markdown]
  have a: "tokensOf (take (Suc 1) ?cs) \<le> MAX_CONTEXT_TOKENS" using t k by blast
  have "tokensOf (take (Suc (length (selectChunks ?cs))) ?cs) > MAX_CONTEXT_TOKENS"
    using t l by blast
  then have b: "tokensOf (take (Suc 2) ?cs) > MAX_CONTEXT_TOKENS" using sel by simp
  have h: "chunkTokens hugeChunk > MAX_CONTEXT_TOKENS"
    by (simp add: chunkTokens_hugeChunk MAX_CONTEXT_TOKENS_def)
  have s2: "selectChunks [hugeChunk, tokenChunk] = [hugeChunk]"
    by (simp add: selectChunks_def chunkTokens_tokenChunk chunkTokens_hugeChunk
          MAX_CONTEXT_TOKENS_def)
  have ne: "[hugeChunk, tokenChunk] \<noteq> []" by simp
  have c: "contextChunks (build (analyze ''hi'') [hugeChunk, tokenChunk] markdown) \<noteq> []"
    using selectChunks_includes_first_and_stops_at_budget
            [of "analyze ''hi''" "[hugeChunk, tokenChunk]" markdown] ne
    by metis
  from sel a b h s2 c show ?thesis by simp
qed

text \<open>
  C3, amended. The budget bounds the passages, not the whole prompt: the sum of the
  token estimates of the passages included in the prompt does not exceed the budget of
  4000, except when the first passage alone exceeds it, and then it is the only passage
  included.
\<close>

theorem build_context_within_budget:
  "tokensOf (contextChunks (build q chunks f)) \<le> MAX_CONTEXT_TOKENS
   \<or> (contextChunks (build q chunks f) = [hd chunks]
       \<and> chunkTokens (hd chunks) > MAX_CONTEXT_TOKENS)"
proof -
  let ?sel = "selectChunks chunks"
  have a: "contextChunks (build q chunks f) = ?sel"
    by (rule build_contextChunks)
  note f = selectChunks_facts [of chunks]
  consider "length ?sel = 0" | "length ?sel = 1" | "2 \<le> length ?sel" by linarith
  then show ?thesis
  proof cases
    case 1
    then show ?thesis using a by simp
  next
    case 2
    then have ne: "chunks \<noteq> []" using f by auto
    then have "?sel = [hd chunks]" using f 2 by (cases ?sel) auto
    then show ?thesis using a by (cases "chunkTokens (hd chunks) > MAX_CONTEXT_TOKENS") auto
  next
    case 3
    then have "1 \<le> length ?sel - 1 \<and> length ?sel - 1 < length ?sel" by linarith
    then have "tokensOf (take (Suc (length ?sel - 1)) chunks) \<le> MAX_CONTEXT_TOKENS"
      using f by blast
    moreover have "Suc (length ?sel - 1) = length ?sel" using 3 by simp
    ultimately have "tokensOf ?sel \<le> MAX_CONTEXT_TOKENS" using f by simp
    then show ?thesis using a by simp
  qed
qed

theorem build_context_within_budget_witness:
  "tokensOf (contextChunks (build (analyze ''hi'') [hugeChunk, tokenChunk] markdown))
     > MAX_CONTEXT_TOKENS
   \<and> contextChunks (build (analyze ''hi'') [hugeChunk, tokenChunk] markdown)
       = [hd [hugeChunk, tokenChunk]]
   \<and> chunkTokens (hd [hugeChunk, tokenChunk]) > MAX_CONTEXT_TOKENS"
proof -
  have s2: "selectChunks [hugeChunk, tokenChunk] = [hugeChunk]"
    by (simp add: selectChunks_def chunkTokens_tokenChunk chunkTokens_hugeChunk
          MAX_CONTEXT_TOKENS_def)
  have a: "tokensOf (contextChunks (build (analyze ''hi'') [hugeChunk, tokenChunk] markdown))
             > MAX_CONTEXT_TOKENS"
    by (simp add: build_contextChunks s2 chunkTokens_hugeChunk MAX_CONTEXT_TOKENS_def)
  from build_context_within_budget [of "analyze ''hi''" "[hugeChunk, tokenChunk]" markdown] a
  show ?thesis by linarith
qed

lemma estimateTokens_lower: "length s \<le> 4 * estimateTokens s"
  by (simp add: estimateTokens_def ceilRatio_def TOKEN_ESTIMATE_RATIO_def)

lemma build_estimate_lower:
  assumes "chunks \<noteq> []"
  shows "length (content (hd chunks)) + 12 \<le> 4 * estimatedTokens (build q chunks f)"
proof -
  from build_userPrompt_first [OF assms, of q f] obtain r where
    "userPrompt (build q chunks f)
       = ''## Context'' @ [CHR 0x0A, CHR 0x0A] @ ''### Source 1'' @ [CHR 0x0A]
         @ ''**Metadata**: '' @ chunkMetadataLine (hd chunks) @ [CHR 0x0A, CHR 0x0A]
         @ content (hd chunks) @ r"
    by blast
  then have "length (content (hd chunks)) + 12 \<le> length (userPrompt (build q chunks f))"
    by simp
  moreover have "estimatedTokens (build q chunks f)
                   = estimateTokens (systemPrompt (build q chunks f) @ userPrompt (build q chunks f))"
    by (simp add: build_def Let_def)
  ultimately show ?thesis
    using estimateTokens_lower [of "systemPrompt (build q chunks f) @ userPrompt (build q chunks f)"]
    by simp
qed

text \<open>
  C3, as stated, fails: \<open>estimatedTokens\<close> is the estimate of the whole prompt,
  system prompt, headings, question and constraints included. A single passage of 16000
  characters is estimated at 4000 tokens, so it does not exceed the budget, yet the
  prompt built from it is estimated above 4000.
\<close>

theorem build_estimatedTokens_counterexample:
  "chunkTokens bigChunk \<le> MAX_CONTEXT_TOKENS
   \<and> estimatedTokens (build (analyze ''What is the authentication flow?'') [bigChunk] markdown)
       > MAX_CONTEXT_TOKENS"
proof -
  have a: "chunkTokens bigChunk \<le> MAX_CONTEXT_TOKENS"
    by (simp add: chunkTokens_def bigChunk_def ceilRatio_def TOKEN_ESTIMATE_RATIO_def
          MAX_CONTEXT_TOKENS_def)
  have "length (content (hd [bigChunk])) + 12
          \<le> 4 * estimatedTokens (build (analyze ''What is the authentication flow?'') [bigChunk] markdown)"
    by (rule build_estimate_lower) simp
  then have "MAX_CONTEXT_TOKENS
          < estimatedTokens (build (analyze ''What is the authentication flow?'') [bigChunk] markdown)"
    by (simp add: bigChunk_def MAX_CONTEXT_TOKENS_def)
  with a show ?thesis by simp
qed

section \<open>Properties of the LLM service\<close>

lemma chatLoop_all_fail:
  "\<forall>p\<in>set ps. unavailableOrFails p messages options \<Longrightarrow>
     chatLoop ps messages options errors
       = Inl (aggregateMessage (errors @ recordedErrors ps messages options))"
proof (induction ps arbitrary: errors)
  case Nil
  show ?case by (simp add: recordedErrors_def List.map_filter_simps)
next
  case (Cons p ps)
  then have p: "unavailableOrFails p messages options"
    and rest: "\<forall>p\<in>set ps. unavailableOrFails p messages options" by simp_all
  note IH = Cons.IH [OF rest]
  show ?case
  proof (cases "provIsAvailable p")
    case (Inl e)
    then show ?thesis
      using IH [of "errors @ [(provName p, e)]"]
      by (simp add: recordedErrors_def List.map_filter_simps failureReason_def)
  next
    case (Inr available)
    show ?thesis
    proof (cases available)
      case False
      then show ?thesis
        using Inr IH [of errors]
        by (simp add: recordedErrors_def List.map_filter_simps failureReason_def)
    next
      case True
      then obtain e where e: "provChat p messages options = Inl e"
        using p Inr by (auto simp: unavailableOrFails_def split: sum.splits)
      then show ?thesis
        using Inr True IH [of "errors @ [(provName p, e)]"]
        by (simp add: recordedErrors_def List.map_filter_simps failureReason_def)
    qed
  qed
qed

lemma joinWith_member: "x \<in> set xs \<Longrightarrow> \<exists>p q. joinWith sep xs = p @ x @ q"
proof (induction sep xs rule: joinWith.induct)
  case (1 sep)
  then show ?case by simp
next
  case (2 sep y)
  then have "joinWith sep [y] = [] @ x @ []" by simp
  then show ?case by blast
next
  case (3 sep y z zs)
  show ?case
  proof (cases "x = y")
    case True
    then have "joinWith sep (y # z # zs) = [] @ x @ (sep @ joinWith sep (z # zs))" by simp
    then show ?thesis by blast
  next
    case False
    then have "x \<in> set (z # zs)" using 3 by simp
    then obtain p q where "joinWith sep (z # zs) = p @ x @ q" using 3 by blast
    then have "joinWith sep (y # z # zs) = (y @ sep @ p) @ x @ q" by simp
    then show ?thesis by blast
  qed
qed

lemma aggregateMessage_includes:
  assumes "(n, e) \<in> set errors"
  shows "includesStr (aggregateMessage errors) (n @ '' ('' @ e @ '')'')"
proof -
  have "n @ '' ('' @ e @ '')''
          \<in> set (map (\<lambda>(provider, err). provider @ '' ('' @ err @ '')'') errors)"
    using assms by force
  then obtain p q where
    "joinWith '', '' (map (\<lambda>(provider, err). provider @ '' ('' @ err @ '')'') errors)
       = p @ (n @ '' ('' @ e @ '')'') @ q"
    using joinWith_member by blast
  then have "aggregateMessage errors
       = (''All LLM providers failed: '' @ p) @ (n @ '' ('' @ e @ '')'') @ q"
    by (simp add: aggregateMessage_def)
  then show ?thesis unfolding includesStr_iff by blast
qed

lemma recordedErrors_member:
  "p \<in> set ps \<Longrightarrow> failureReason p messages options = Some e \<Longrightarrow>
     (provName p, e) \<in> set (recordedErrors ps messages options)"
  by (force simp: recordedErrors_def List.map_filter_def)

text \<open>
  C4, amended. If every provider is skipped as unavailable or throws (in its probe or in
  its call), \<open>chat\<close> returns no response: it throws the aggregate error, whose message
  is \<open>All LLM providers failed: \<close> followed by \<open>name (reason)\<close> for each provider
  that threw, in order. Providers skipped as unavailable are not listed.
\<close>

theorem chat_all_fail_aggregates_thrown_errors:
  assumes "\<forall>p\<in>set (providers (initialize cls svc)). unavailableOrFails p messages options"
  shows "fst (chat cls svc messages options)
           = Inl (aggregateMessage
                    (recordedErrors (providers (initialize cls svc)) messages options))
         \<and> (\<forall>p\<in>set (providers (initialize cls svc)). \<forall>e.
               failureReason p messages options = Some e \<longrightarrow>
               includesStr
                 (aggregateMessage
                    (recordedErrors (providers (initialize cls svc)) messages options))
                 (provName p @ '' ('' @ e @ '')''))
         \<and> (\<forall>response. fst (chat cls svc messages options) \<noteq> Inr response)"
proof -
  have a: "fst (chat cls svc messages options)
           = Inl (aggregateMessage
                    (recordedErrors (providers (initialize cls svc)) messages options))"
    using chatLoop_all_fail [OF assms, of "[]"] by (simp add: chat_def Let_def)
  have b: "\<forall>p\<in>set (providers (initialize cls svc)). \<forall>e.
               failureReason p messages options = Some e \<longrightarrow>
               includesStr
                 (aggregateMessage
                    (recordedErrors (providers (initialize cls svc)) messages options))
                 (provName p @ '' ('' @ e @ '')'')"
    using recordedErrors_member aggregateMessage_includes by blast
  from a b show ?thesis by simp
qed

lemma initialize_freshService:
  "providers (initialize offlineClasses freshService) = [offlineLMStudio, rejectingOpenAI]"
  by (simp add: initialize_def freshService_def offlineClasses_def configured_def Let_def)

theorem chat_all_fail_aggregates_thrown_errors_witness:
  "unavailableOrFails offlineLMStudio [] noOptions
   \<and> unavailableOrFails rejectingOpenAI [] noOptions
   \<and> fst (chat offlineClasses freshService [] noOptions)
       = Inl ''All LLM providers failed: openai (OpenAI error: 401)''
   \<and> failureReason rejectingOpenAI [] noOptions = Some ''OpenAI error: 401''
   \<and> includesStr ''All LLM providers failed: openai (OpenAI error: 401)''
        ''openai (OpenAI error: 401)''"
proof -
  have u1: "unavailableOrFails offlineLMStudio [] noOptions"
    by (simp add: unavailableOrFails_def offlineLMStudio_def)
  have u2: "unavailableOrFails rejectingOpenAI [] noOptions"
    by (simp add: unavailableOrFails_def rejectingOpenAI_def)
  have h: "\<forall>p\<in>set (providers (initialize offlineClasses freshService)).
             unavailableOrFails p [] noOptions"
    using u1 u2 by (simp add: initialize_freshService)
  have r: "recordedErrors (providers (initialize offlineClasses freshService)) [] noOptions
             = [(''openai'', ''OpenAI error: 401'')]"
    by (simp add: initialize_freshService recordedErrors_def List.map_filter_simps
          failureReason_def offlineLMStudio_def rejectingOpenAI_def)
  have m: "aggregateMessage [(''openai'', ''OpenAI error: 401'')]
             = ''All LLM providers failed: openai (OpenAI error: 401)''"
    by (simp add: aggregateMessage_def)
  have f: "failureReason rejectingOpenAI [] noOptions = Some ''OpenAI error: 401''"
    by (simp add: failureReason_def rejectingOpenAI_def)
  have n: "provName rejectingOpenAI = ''openai''" by (simp add: rejectingOpenAI_def)
  note t = chat_all_fail_aggregates_thrown_errors [OF h]
  have c1: "fst (chat offlineClasses freshService [] noOptions)
              = Inl ''All LLM providers failed: openai (OpenAI error: 401)''"
    using t r m by simp
  have "rejectingOpenAI \<in> set (providers (initialize offlineClasses freshService))"
    by (simp add: initialize_freshService)
  then have "includesStr
                 (aggregateMessage
                    (recordedErrors (providers (initialize offlineClasses freshService)) []
                       noOptions))
                 (provName rejectingOpenAI @ '' ('' @ ''OpenAI error: 401'' @ '')'')"
    using t f by blast
  then have c2: "includesStr ''All LLM providers failed: openai (OpenAI error: 401)''
        ''openai (OpenAI error: 401)''"
    using r m n by simp
  from u1 u2 c1 f c2 show ?thesis by simp
qed

text \<open>
  C4, as stated, fails: with LM Studio unavailable and OpenAI rejecting the call, every
  provider is unavailable or fails, and the aggregate message names \<open>openai\<close> but
  not \<open>lmstudio\<close>.
\<close>

theorem chat_unavailable_provider_counterexample:
  "providers (initialize offlineClasses freshService) = [offlineLMStudio, rejectingOpenAI]
   \<and> provIsAvailable offlineLMStudio = Inr False
   \<and> provChat rejectingOpenAI [] noOptions = Inl ''OpenAI error: 401''
   \<and> fst (chat offlineClasses freshService [] noOptions)
       = Inl ''All LLM providers failed: openai (OpenAI error: 401)''
   \<and> \<not> includesStr ''All LLM providers failed: openai (OpenAI error: 401)''
          (provName offlineLMStudio)"
proof -
  have c: "fst (chat offlineClasses freshService [] noOptions)
       = Inl ''All LLM providers failed: openai (OpenAI error: 401)''"
    by (simp add: chat_def Let_def initialize_freshService offlineLMStudio_def
          rejectingOpenAI_def aggregateMessage_def)
  have n: "\<not> includesStr ''All LLM providers failed: openai (OpenAI error: 401)''
          (provName offlineLMStudio)"
    by (simp add: offlineLMStudio_def)
  from c n show ?thesis
    by (simp add: initialize_freshService offlineLMStudio_def rejectingOpenAI_def)
qed

section \<open>Properties of retrieval\<close>

lemma normalized_hello:
  "take 100 (trim (collapseWhitespace (toLowerCase ''Hello World''))) = ''hello world''"
  "take 100 (trim (collapseWhitespace (toLowerCase ''hello   world''))) = ''hello world''"
  by code_simp+

lemma fingerprint_hello: "createFingerprint ''Hello World'' = createFingerprint ''hello   world''"
  by (simp add: createFingerprint_def normalized_hello)

lemma normalized_other:
  "take 100 (trim (collapseWhitespace (toLowerCase ''Other text''))) = ''other text''"
  by code_simp

lemma fingerprint_hello_value: "createFingerprint ''Hello World'' = ''6aefe2c4''"
  by (simp add: createFingerprint_def normalized_hello hashStep_def push_bit_eq_mult
        toString16_def hexDigit_def)

lemma fingerprint_other_value: "createFingerprint ''Other text'' = ''-e545fc3''"
  by (simp add: createFingerprint_def normalized_other hashStep_def push_bit_eq_mult
        toString16_def hexDigit_def)

lemma deduplicate_pair:
  assumes "createFingerprint (content a) = createFingerprint (content b)"
  shows "deduplicate [a, b]
           = (if score b > score a then [b\<lparr>duplicateOf := Some (chunkId a)\<rparr>] else [a])"
  using assms by (simp add: deduplicate_def dedupStep_def Let_def)

lemma list_all_update: "list_all P al \<Longrightarrow> P (k, v) \<Longrightarrow> list_all P (AList.update k v al)"
  by (induction al) auto

lemma dedupStep_seenOk: "seenOk seen \<Longrightarrow> seenOk (dedupStep seen c)"
  by (auto simp: dedupStep_def seenOk_def Let_def distinct_update list_all_update
        split: option.splits)

lemma foldl_dedupStep_seenOk: "seenOk seen \<Longrightarrow> seenOk (foldl dedupStep seen xs)"
  by (induction xs arbitrary: seen) (simp_all add: dedupStep_seenOk)

lemma dedupStep_other_key:
  "createFingerprint (content c) \<noteq> k \<Longrightarrow> map_of (dedupStep seen c) k = map_of seen k"
  by (simp add: dedupStep_def Let_def update_conv' split: option.splits)

lemma foldl_dedupStep_other_keys:
  "\<forall>c\<in>set xs. createFingerprint (content c) \<noteq> k \<Longrightarrow>
     map_of (foldl dedupStep seen xs) k = map_of seen k"
  by (induction xs arbitrary: seen) (simp_all add: dedupStep_other_key)

lemma dedupStep_first:
  "map_of seen (createFingerprint (content a)) = None \<Longrightarrow>
     map_of (dedupStep seen a) (createFingerprint (content a)) = Some a"
  by (simp add: dedupStep_def Let_def update_conv')

lemma dedupStep_lower:
  "map_of seen (createFingerprint (content b)) = Some a \<Longrightarrow> score b \<le> score a \<Longrightarrow>
     dedupStep seen b = seen"
  by (simp add: dedupStep_def Let_def)

lemma dedupStep_higher:
  "map_of seen (createFingerprint (content a)) = Some b \<Longrightarrow> score a > score b \<Longrightarrow>
     map_of (dedupStep seen a) (createFingerprint (content a))
       = Some (a\<lparr>duplicateOf := Some (chunkId b)\<rparr>)"
  by (simp add: dedupStep_def Let_def update_conv')

lemma seenOk_unique:
  assumes "seenOk seen" and "map_of seen k = Some v" and "c \<in> snd ` set seen"
    and "createFingerprint (content c) = k"
  shows "c = v"
proof -
  from assms(3) obtain k' where e: "(k', c) \<in> set seen" by force
  then have "k' = createFingerprint (content c)"
    using assms(1) by (auto simp: seenOk_def list_all_iff)
  then have "(k, c) \<in> set seen" using e assms(4) by simp
  then have "map_of seen k = Some c"
    using assms(1) by (simp add: seenOk_def)
  then show ?thesis using assms(2) by simp
qed

lemma deduplicate_survivor:
  assumes "map_of (foldl dedupStep [] xs) k = Some v"
  shows "v \<in> set (deduplicate xs)
         \<and> (\<forall>c\<in>set (deduplicate xs). createFingerprint (content c) = k \<longrightarrow> c = v)"
proof -
  have ok: "seenOk (foldl dedupStep [] xs)"
    by (rule foldl_dedupStep_seenOk) (simp add: seenOk_def)
  have "v \<in> snd ` set (foldl dedupStep [] xs)"
    using assms by (force dest: map_of_SomeD)
  then have a: "v \<in> set (deduplicate xs)" by (simp add: deduplicate_def)
  have "\<forall>c\<in>set (deduplicate xs). createFingerprint (content c) = k \<longrightarrow> c = v"
    using seenOk_unique [OF ok assms] by (simp add: deduplicate_def)
  with a show ?thesis by simp
qed

lemma dedup_state_lower_second:
  assumes fp: "createFingerprint (content a) = createFingerprint (content b)"
    and others: "\<forall>c\<in>set pre \<union> set mid \<union> set post.
                   createFingerprint (content c) \<noteq> createFingerprint (content a)"
    and sc: "score b \<le> score a"
  shows "map_of (foldl dedupStep [] (pre @ a # mid @ b # post))
           (createFingerprint (content a)) = Some a"
proof -
  let ?k = "createFingerprint (content a)"
  let ?s1 = "foldl dedupStep [] pre"
  let ?s2 = "dedupStep ?s1 a"
  let ?s3 = "foldl dedupStep ?s2 mid"
  have 1: "map_of ?s1 ?k = None"
    using foldl_dedupStep_other_keys [of pre ?k "[]"] others by simp
  have 2: "map_of ?s2 ?k = Some a" using dedupStep_first [OF 1] .
  have 3: "map_of ?s3 ?k = Some a"
    using foldl_dedupStep_other_keys [of mid ?k ?s2] others 2 by simp
  have 4: "dedupStep ?s3 b = ?s3"
    using dedupStep_lower [of ?s3 b a] 3 fp sc by simp
  have "map_of (foldl dedupStep (dedupStep ?s3 b) post) ?k = Some a"
    unfolding 4 using foldl_dedupStep_other_keys [of post ?k ?s3] others 3 by simp
  then show ?thesis by simp
qed

lemma dedup_state_higher_second:
  assumes fp: "createFingerprint (content a) = createFingerprint (content b)"
    and others: "\<forall>c\<in>set pre \<union> set mid \<union> set post.
                   createFingerprint (content c) \<noteq> createFingerprint (content a)"
    and sc: "score b < score a"
  shows "map_of (foldl dedupStep [] (pre @ b # mid @ a # post))
           (createFingerprint (content a)) = Some (a\<lparr>duplicateOf := Some (chunkId b)\<rparr>)"
proof -
  let ?k = "createFingerprint (content a)"
  let ?s1 = "foldl dedupStep [] pre"
  let ?s2 = "dedupStep ?s1 b"
  let ?s3 = "foldl dedupStep ?s2 mid"
  let ?s4 = "dedupStep ?s3 a"
  have 1: "map_of ?s1 ?k = None"
    using foldl_dedupStep_other_keys [of pre ?k "[]"] others by simp
  have 2: "map_of ?s2 ?k = Some b" using dedupStep_first [of ?s1 b] 1 fp by simp
  have 3: "map_of ?s3 ?k = Some b"
    using foldl_dedupStep_other_keys [of mid ?k ?s2] others 2 by simp
  have 4: "map_of ?s4 ?k = Some (a\<lparr>duplicateOf := Some (chunkId b)\<rparr>)"
    using dedupStep_higher [OF 3 sc] .
  have "map_of (foldl dedupStep ?s4 post) ?k = Some (a\<lparr>duplicateOf := Some (chunkId b)\<rparr>)"
    using foldl_dedupStep_other_keys [of post ?k ?s4] others 4 by simp
  then show ?thesis by simp
qed

text \<open>
  C2, amended. Of two chunks of the candidate list with colliding fingerprints and scores
  0.9 and 0.7 (no other candidate sharing the fingerprint), deduplication keeps exactly
  the 0.9 chunk. Met in the order 0.9, 0.7 the survivor is returned unchanged; its
  \<open>duplicateOf\<close> becomes the identifier of the 0.7 chunk only when the 0.7 chunk is met
  first.
\<close>

theorem deduplicate_keeps_higher_score:
  assumes "createFingerprint (content a) = createFingerprint (content b)"
    and "\<forall>c\<in>set pre \<union> set mid \<union> set post.
           createFingerprint (content c) \<noteq> createFingerprint (content a)"
    and "score a = 9/10" and "score b = 7/10"
  shows "a \<in> set (deduplicate (pre @ a # mid @ b # post))
         \<and> (\<forall>c\<in>set (deduplicate (pre @ a # mid @ b # post)).
               createFingerprint (content c) = createFingerprint (content a) \<longrightarrow> c = a)
         \<and> a\<lparr>duplicateOf := Some (chunkId b)\<rparr> \<in> set (deduplicate (pre @ b # mid @ a # post))
         \<and> (\<forall>c\<in>set (deduplicate (pre @ b # mid @ a # post)).
               createFingerprint (content c) = createFingerprint (content a) \<longrightarrow>
               c = a\<lparr>duplicateOf := Some (chunkId b)\<rparr>)
         \<and> deduplicate [a, b] = [a]
         \<and> deduplicate [b, a] = [a\<lparr>duplicateOf := Some (chunkId b)\<rparr>]"
proof -
  have le: "score b \<le> score a" and lt: "score b < score a" using assms(3,4) by simp_all
  note s1 = deduplicate_survivor [OF dedup_state_lower_second [OF assms(1,2) le]]
  note s2 = deduplicate_survivor [OF dedup_state_higher_second [OF assms(1,2) lt]]
  have p: "deduplicate [a, b] = [a]"
    "deduplicate [b, a] = [a\<lparr>duplicateOf := Some (chunkId b)\<rparr>]"
    using assms(1) lt deduplicate_pair [of a b] deduplicate_pair [of b a] by simp_all
  from s1 s2 p show ?thesis by blast
qed

theorem deduplicate_keeps_higher_score_witness:
  "createFingerprint (content helloA) = createFingerprint (content helloB)
   \<and> createFingerprint (content otherC) \<noteq> createFingerprint (content helloA)
   \<and> score helloA = 9/10 \<and> score helloB = 7/10
   \<and> helloA \<in> set (deduplicate [helloA, otherC, helloB])
   \<and> helloA\<lparr>duplicateOf := Some ''b''\<rparr> \<in> set (deduplicate [helloB, otherC, helloA])
   \<and> deduplicate [helloA, helloB] = [helloA]
   \<and> deduplicate [helloB, helloA] = [helloA\<lparr>duplicateOf := Some ''b''\<rparr>]"
proof -
  have f: "createFingerprint (content helloA) = createFingerprint (content helloB)"
    using fingerprint_hello by (simp add: helloA_def helloB_def)
  have n: "createFingerprint (content otherC) \<noteq> createFingerprint (content helloA)"
    by (simp add: otherC_def helloA_def fingerprint_hello_value fingerprint_other_value)
  then have o: "\<forall>c\<in>set [] \<union> set [otherC] \<union> set [].
                 createFingerprint (content c) \<noteq> createFingerprint (content helloA)"
    by simp
  have a: "score helloA = 9/10" by (simp add: helloA_def)
  have b: "score helloB = 7/10" by (simp add: helloB_def)
  have i: "chunkId helloB = ''b''" by (simp add: helloB_def)
  from deduplicate_keeps_higher_score [OF f o a b] f n a b i show ?thesis by simp
qed

text \<open>
  C2, as stated, fails: in the order 0.9, 0.7 the surviving chunk carries no
  back-reference to the chunk that was dropped.
\<close>

theorem deduplicate_back_reference_counterexample:
  "createFingerprint (content helloA) = createFingerprint (content helloB)
   \<and> score helloA = 9/10 \<and> score helloB = 7/10
   \<and> deduplicate [helloA, helloB] = [helloA]
   \<and> duplicateOf (hd (deduplicate [helloA, helloB])) = None
   \<and> duplicateOf (hd (deduplicate [helloA, helloB])) \<noteq> Some (chunkId helloB)"
proof -
  have f: "createFingerprint (content helloA) = createFingerprint (content helloB)"
    using fingerprint_hello by (simp add: helloA_def helloB_def)
  have d: "deduplicate [helloA, helloB] = [helloA]"
    using deduplicate_pair [OF f] by (simp add: helloA_def helloB_def)
  show ?thesis using f d by (simp add: helloA_def helloB_def)
qed

lemma map_snd_zip_fun:
  "length xs = length ys \<Longrightarrow> map (\<lambda>p. f (snd p)) (zip xs ys) = map f ys"
  by (induction xs ys rule: list_induct2) auto

lemma map_fst_zip_fun:
  "length xs = length ys \<Longrightarrow> map (\<lambda>p. f (fst p)) (zip xs ys) = map f xs"
  by (induction xs ys rule: list_induct2) auto

lemma reassignRanks_length [simp]: "length (reassignRanks xs) = length xs"
  by (simp add: reassignRanks_def)

lemma reassignRanks_ranks: "map rank (reassignRanks xs) = [1..<Suc (length xs)]"
proof -
  have "map rank (reassignRanks xs) = map (\<lambda>(c, i). Suc i) (zip xs [0..<length xs])"
    by (simp add: reassignRanks_def case_prod_unfold)
  also have "\<dots> = map Suc [0..<length xs]"
    by (simp add: case_prod_unfold map_snd_zip_fun)
  also have "\<dots> = [1..<Suc (length xs)]" by (simp add: map_Suc_upt)
  finally show ?thesis .
qed

lemma reassignRanks_scores: "map score (reassignRanks xs) = map score xs"
proof -
  have "map score (reassignRanks xs) = map (\<lambda>(c, i). score c) (zip xs [0..<length xs])"
    by (simp add: reassignRanks_def case_prod_unfold)
  also have "\<dots> = map score xs"
    by (simp add: case_prod_unfold map_fst_zip_fun)
  finally show ?thesis .
qed

lemma rerank_length [simp]: "length (rerank chunks q) = length chunks"
  by (simp add: rerank_def)

lemma rerank_ranks: "map rank (rerank chunks q) = [1..<Suc (length chunks)]"
  by (simp add: rerank_def reassignRanks_ranks)

lemma sorted_wrt_map_score:
  "sorted_wrt (\<lambda>a b. score a \<ge> score b) xs = sorted_wrt (\<ge>) (map score xs)"
  by (simp add: sorted_wrt_map)

lemma sorted_wrt_map_rank:
  "sorted_wrt (\<lambda>a b. rank a < rank b) xs = sorted_wrt (<) (map rank xs)"
  by (simp add: sorted_wrt_map)

lemma rerank_scores: "sorted_wrt (\<lambda>a b. score a \<ge> score b) (rerank chunks q)"
proof -
  have "sorted (map (\<lambda>c. - score c) (sort_key (\<lambda>c. - score c) chunks))"
    by (rule sorted_sort_key)
  then have "sorted_wrt (\<lambda>a b. score a \<ge> score b) (sort_key (\<lambda>c. - score c) chunks)"
    by (simp add: sorted_wrt_map)
  then have "sorted_wrt (\<ge>) (map score (sort_key (\<lambda>c. - score c) chunks))"
    by (simp add: sorted_wrt_map)
  then show ?thesis
    unfolding sorted_wrt_map_score rerank_def reassignRanks_scores .
qed

lemma rerank_ranks_increasing: "sorted_wrt (\<lambda>a b. rank a < rank b) (rerank chunks q)"
  unfolding sorted_wrt_map_rank rerank_ranks by (simp add: sorted_wrt_upt del: upt_Suc)

lemma update_fresh: "map_of al k = None \<Longrightarrow> AList.update k v al = al @ [(k, v)]"
  by (induction al) (auto split: if_splits)

lemma dedup_foldl_sorted:
  assumes "\<forall>x\<in>snd ` set seen. \<forall>c\<in>set chunks. score c \<le> score x"
    and "sorted_wrt (\<lambda>a b. score a \<ge> score b) chunks"
  shows "\<exists>ys. map snd (foldl dedupStep seen chunks) = map snd seen @ ys \<and> subseq ys chunks"
  using assms
proof (induction chunks arbitrary: seen)
  case Nil
  then show ?case by simp
next
  case (Cons c cs)
  have srt: "sorted_wrt (\<lambda>a b. score a \<ge> score b) cs"
    and cmax: "\<forall>c'\<in>set cs. score c' \<le> score c"
    using Cons.prems(2) by auto
  show ?case
  proof (cases "map_of seen (createFingerprint (content c))")
    case None
    then have step: "dedupStep seen c = seen @ [(createFingerprint (content c), c)]"
      by (simp add: dedupStep_def update_fresh)
    have pre: "\<forall>x\<in>snd ` set (dedupStep seen c). \<forall>c'\<in>set cs. score c' \<le> score x"
      unfolding step using Cons.prems(1) cmax by auto
    from Cons.IH [OF pre srt] obtain ys where
      ys: "map snd (foldl dedupStep (dedupStep seen c) cs) = map snd (dedupStep seen c) @ ys"
      and sub: "subseq ys cs" by blast
    have "map snd (foldl dedupStep seen (c # cs)) = map snd seen @ (c # ys)"
      using ys step by simp
    moreover have "subseq (c # ys) (c # cs)" using sub by simp
    ultimately show ?thesis by blast
  next
    case (Some existing)
    then have "existing \<in> snd ` set seen" by (force dest: map_of_SomeD)
    then have "score c \<le> score existing" using Cons.prems(1) by fastforce
    then have step: "dedupStep seen c = seen" using Some by (simp add: dedupStep_def)
    have pre: "\<forall>x\<in>snd ` set seen. \<forall>c'\<in>set cs. score c' \<le> score x"
      using Cons.prems(1) by simp
    from Cons.IH [OF pre srt] obtain ys where
      ys: "map snd (foldl dedupStep seen cs) = map snd seen @ ys"
      and sub: "subseq ys cs" by blast
    have "map snd (foldl dedupStep seen (c # cs)) = map snd seen @ ys"
      using ys step by simp
    moreover have "subseq ys (c # cs)" using sub by (rule list_emb_Cons)
    ultimately show ?thesis by blast
  qed
qed

lemma deduplicate_subseq:
  "sorted_wrt (\<lambda>a b. score a \<ge> score b) chunks \<Longrightarrow> subseq (deduplicate chunks) chunks"
  using dedup_foldl_sorted [of "[]" chunks] by (auto simp: deduplicate_def)

lemma sorted_wrt_subseq_chunks: "subseq xs ys \<Longrightarrow> sorted_wrt R ys \<Longrightarrow> sorted_wrt R xs"
proof (induction rule: list_emb.induct)
  case (list_emb_Nil ys)
  then show ?case by simp
next
  case (list_emb_Cons xs ys y)
  then show ?case by simp
next
  case (list_emb_Cons2 x y xs ys)
  then have "set xs \<subseteq> set ys" by (auto dest: list_emb_set)
  then show ?case using list_emb_Cons2 by auto
qed

lemma sliceTo_subseq: "subseq (sliceTo limit xs) xs"
  by (cases limit) (auto simp: sliceTo_def intro: prefix_imp_subseq take_is_prefix)

lemma rankChunks_subseq_rerank:
  assumes "valueOf (optRerank opts) = Some True"
  shows "subseq (rankChunks opts q results)
           (rerank (map (\<lambda>(r, i). toChunk q r i) (zip results [0..<length results])) q)"
proof -
  let ?c0 = "map (\<lambda>(r, i). toChunk q r i) (zip results [0..<length results])"
  have d: "subseq (deduplicate (rerank ?c0 q)) (rerank ?c0 q)"
    by (rule deduplicate_subseq) (rule rerank_scores)
  show ?thesis
  proof (cases "valueOf (optDeduplicate opts) = Some True")
    case True
    then have "rankChunks opts q results
                 = sliceTo (valueOf (optLimit opts)) (deduplicate (rerank ?c0 q))"
      using assms by (simp add: rankChunks_def Let_def)
    then show ?thesis using sliceTo_subseq d subseq_order.order_trans by metis
  next
    case False
    then have "rankChunks opts q results = sliceTo (valueOf (optLimit opts)) (rerank ?c0 q)"
      using assms by (simp add: rankChunks_def Let_def)
    then show ?thesis using sliceTo_subseq by metis
  qed
qed

lemma rankChunks_ordered:
  assumes "valueOf (optRerank opts) = Some True"
  shows "sorted_wrt (\<lambda>a b. rank a < rank b) (rankChunks opts q results)"
    and "sorted_wrt (\<lambda>a b. score a \<ge> score b) (rankChunks opts q results)"
    and "\<forall>c\<in>set (rankChunks opts q results). 1 \<le> rank c \<and> rank c \<le> length results"
proof -
  let ?c0 = "map (\<lambda>(r, i). toChunk q r i) (zip results [0..<length results])"
  note sub = rankChunks_subseq_rerank [OF assms, of q results]
  show "sorted_wrt (\<lambda>a b. rank a < rank b) (rankChunks opts q results)"
    using sorted_wrt_subseq_chunks [OF sub rerank_ranks_increasing] .
  show "sorted_wrt (\<lambda>a b. score a \<ge> score b) (rankChunks opts q results)"
    using sorted_wrt_subseq_chunks [OF sub rerank_scores] .
  have "set (rankChunks opts q results) \<subseteq> set (rerank ?c0 q)"
    using sub by (auto dest: list_emb_set)
  moreover have "\<forall>c\<in>set (rerank ?c0 q). 1 \<le> rank c \<and> rank c \<le> length results"
  proof
    fix c assume "c \<in> set (rerank ?c0 q)"
    then have "rank c \<in> set (map rank (rerank ?c0 q))" by simp
    then have "rank c \<in> set [1..<Suc (length ?c0)]" unfolding rerank_ranks .
    then show "1 \<le> rank c \<and> rank c \<le> length results" by auto
  qed
  ultimately show "\<forall>c\<in>set (rankChunks opts q results). 1 \<le> rank c \<and> rank c \<le> length results"
    by blast
qed

lemma rankChunks_dense_without_dedup:
  assumes "valueOf (optRerank opts) = Some True"
    and "valueOf (optDeduplicate opts) \<noteq> Some True"
  shows "map rank (rankChunks opts q results)
           = [1..<Suc (length (rankChunks opts q results))]"
proof -
  let ?c0 = "map (\<lambda>(r, i). toChunk q r i) (zip results [0..<length results])"
  have eq: "rankChunks opts q results = sliceTo (valueOf (optLimit opts)) (rerank ?c0 q)"
    using assms by (simp add: rankChunks_def Let_def)
  show ?thesis
  proof (cases "valueOf (optLimit opts)")
    case None
    then show ?thesis unfolding eq by (simp add: sliceTo_def rerank_ranks del: upt_Suc)
  next
    case (Some n)
    have "map rank (take n (rerank ?c0 q)) = take n [1..<Suc (length ?c0)]"
      by (simp add: take_map [symmetric] rerank_ranks del: upt_Suc)
    also have "\<dots> = [1..<Suc (min n (length ?c0))]"
      by (simp add: take_upt min_def del: upt_Suc)
    also have "min n (length ?c0) = length (take n (rerank ?c0 q))"
      by (simp add: min.commute)
    finally show ?thesis unfolding eq using Some by (simp add: sliceTo_def)
  qed
qed

lemma retrieve_Inr:
  assumes "retrieve search q options = Inr cs"
  shows "\<exists>results.
           cs = rankChunks (mergeRetrievalOptions DEFAULT_RETRIEVAL_OPTIONS options) q results"
  using assms by (auto simp: retrieve_def Let_def split: sum.splits)

text \<open>
  C5, amended. After reranking the ranks are exactly 1..N and the scores are
  non-increasing. In the list that \<open>retrieve\<close> returns with reranking enabled the ranks
  are strictly increasing, so unique, start no lower than 1, and the scores are
  non-increasing; the ranks are exactly 1..N for that list when deduplication is
  disabled. With deduplication enabled the removed duplicates leave gaps.
\<close>

theorem rerank_dense_and_retrieve_ordered:
  "map rank (rerank chunks q) = [1..<Suc (length chunks)]
   \<and> sorted_wrt (\<lambda>a b. score a \<ge> score b) (rerank chunks q)
   \<and> (retrieve search q options = Inr cs
        \<and> valueOf (optRerank (mergeRetrievalOptions DEFAULT_RETRIEVAL_OPTIONS options))
            = Some True
       \<longrightarrow> sorted_wrt (\<lambda>a b. rank a < rank b) cs
           \<and> sorted_wrt (\<lambda>a b. score a \<ge> score b) cs
           \<and> (\<forall>c\<in>set cs. 1 \<le> rank c))
   \<and> (retrieve search q options = Inr cs
        \<and> valueOf (optRerank (mergeRetrievalOptions DEFAULT_RETRIEVAL_OPTIONS options))
            = Some True
        \<and> valueOf (optDeduplicate (mergeRetrievalOptions DEFAULT_RETRIEVAL_OPTIONS options))
            \<noteq> Some True
       \<longrightarrow> map rank cs = [1..<Suc (length cs)])"
proof -
  let ?opts = "mergeRetrievalOptions DEFAULT_RETRIEVAL_OPTIONS options"
  have a: "retrieve search q options = Inr cs \<and> valueOf (optRerank ?opts) = Some True
       \<longrightarrow> sorted_wrt (\<lambda>a b. rank a < rank b) cs
           \<and> sorted_wrt (\<lambda>a b. score a \<ge> score b) cs
           \<and> (\<forall>c\<in>set cs. 1 \<le> rank c)"
  proof
    assume h: "retrieve search q options = Inr cs \<and> valueOf (optRerank ?opts) = Some True"
    then obtain results where cs: "cs = rankChunks ?opts q results"
      using retrieve_Inr by blast
    from h have r: "valueOf (optRerank ?opts) = Some True" by simp
    show "sorted_wrt (\<lambda>a b. rank a < rank b) cs
           \<and> sorted_wrt (\<lambda>a b. score a \<ge> score b) cs
           \<and> (\<forall>c\<in>set cs. 1 \<le> rank c)"
      unfolding cs using rankChunks_ordered [OF r, of q results] by blast
  qed
  have b: "retrieve search q options = Inr cs \<and> valueOf (optRerank ?opts) = Some True
        \<and> valueOf (optDeduplicate ?opts) \<noteq> Some True
       \<longrightarrow> map rank cs = [1..<Suc (length cs)]"
  proof
    assume h: "retrieve search q options = Inr cs \<and> valueOf (optRerank ?opts) = Some True
        \<and> valueOf (optDeduplicate ?opts) \<noteq> Some True"
    then obtain results where cs: "cs = rankChunks ?opts q results"
      using retrieve_Inr by blast
    show "map rank cs = [1..<Suc (length cs)]"
      unfolding cs using rankChunks_dense_without_dedup h by blast
  qed
  from rerank_ranks [of chunks q] rerank_scores [of chunks q] a b show ?thesis by blast
qed

lemma score_three:
  "calculateScore helloResult q = 9/10"
  "calculateScore helloAgainResult q = 8/10"
  "calculateScore otherResult q = 7/10"
  by (simp_all add: calculateScore_def helloResult_def helloAgainResult_def otherResult_def
        Let_def)

lemma content_three:
  "content (toChunk q helloResult i) = ''Hello World''"
  "content (toChunk q helloAgainResult i) = ''hello   world''"
  "content (toChunk q otherResult i) = ''Other text''"
  by (simp_all add: toChunk_def helloResult_def helloAgainResult_def otherResult_def)

lemma score_toChunk: "score (toChunk q r i) = calculateScore r q"
  by (simp add: toChunk_def)

lemma rank_toChunk: "rank (toChunk q r i) = Suc i"
  by (simp add: toChunk_def)

lemma toChunk_rank_same: "(toChunk q r i)\<lparr>rank := Suc i\<rparr> = toChunk q r i"
  by (simp add: toChunk_def)

lemma rerank_three:
  "rerank [toChunk q helloResult 0, toChunk q helloAgainResult 1, toChunk q otherResult 2] q
     = [toChunk q helloResult 0, toChunk q helloAgainResult 1, toChunk q otherResult 2]"
proof -
  have z: "[0..<length [toChunk q helloResult 0, toChunk q helloAgainResult 1,
                        toChunk q otherResult 2]] = [0, 1, 2]"
    by (simp add: upt_rec)
  have s: "sort_key (\<lambda>c. - score c)
             [toChunk q helloResult 0, toChunk q helloAgainResult 1, toChunk q otherResult 2]
           = [toChunk q helloResult 0, toChunk q helloAgainResult 1, toChunk q otherResult 2]"
    by (simp add: score_toChunk score_three)
  show ?thesis
    unfolding rerank_def s reassignRanks_def z
    using toChunk_rank_same [where q = q and r = helloResult and i = 0]
      toChunk_rank_same [where q = q and r = helloAgainResult and i = 1]
      toChunk_rank_same [where q = q and r = otherResult and i = 2]
    by simp
qed

lemma deduplicate_three:
  "deduplicate [toChunk q helloResult 0, toChunk q helloAgainResult 1, toChunk q otherResult 2]
     = [toChunk q helloResult 0, toChunk q otherResult 2]"
  by (simp add: deduplicate_def dedupStep_def content_three score_toChunk score_three
        fingerprint_hello_value fingerprint_hello [symmetric] fingerprint_other_value)

lemma retrieve_three:
  "retrieve threeResults q noRetrievalOptions
     = Inr [toChunk q helloResult 0, toChunk q otherResult 2]"
proof -
  have z: "zip [helloResult, helloAgainResult, otherResult]
             [0..<length [helloResult, helloAgainResult, otherResult]]
           = [(helloResult, 0), (helloAgainResult, 1), (otherResult, 2)]"
    by (simp add: upt_rec)
  have o: "mergeRetrievalOptions DEFAULT_RETRIEVAL_OPTIONS noRetrievalOptions
             = DEFAULT_RETRIEVAL_OPTIONS"
    by (simp add: mergeRetrievalOptions_def noRetrievalOptions_def spread_def
          DEFAULT_RETRIEVAL_OPTIONS_def)
  have c0: "map (\<lambda>(r, i). toChunk q r i)
              [(helloResult, 0), (helloAgainResult, 1), (otherResult, 2)]
            = [toChunk q helloResult 0, toChunk q helloAgainResult 1, toChunk q otherResult 2]"
    by simp
  have "rankChunks DEFAULT_RETRIEVAL_OPTIONS q [helloResult, helloAgainResult, otherResult]
          = sliceTo (Some 10)
              (deduplicate
                 (rerank (map (\<lambda>(r, i). toChunk q r i)
                            (zip [helloResult, helloAgainResult, otherResult]
                               [0..<length [helloResult, helloAgainResult, otherResult]])) q))"
    by (simp add: rankChunks_def DEFAULT_RETRIEVAL_OPTIONS_def valueOf_def Let_def)
  then have r: "rankChunks DEFAULT_RETRIEVAL_OPTIONS q
                  [helloResult, helloAgainResult, otherResult]
             = [toChunk q helloResult 0, toChunk q otherResult 2]"
    unfolding z c0 rerank_three deduplicate_three by (simp add: sliceTo_def)
  show ?thesis
    unfolding retrieve_def o by (simp add: threeResults_def r)
qed

theorem rerank_dense_and_retrieve_ordered_witness:
  "retrieve threeResults (analyze ''hi'') noRetrievalOptions
     = Inr [toChunk (analyze ''hi'') helloResult 0, toChunk (analyze ''hi'') otherResult 2]
   \<and> valueOf (optRerank (mergeRetrievalOptions DEFAULT_RETRIEVAL_OPTIONS noRetrievalOptions))
       = Some True
   \<and> sorted_wrt (\<lambda>a b. rank a < rank b)
        [toChunk (analyze ''hi'') helloResult 0, toChunk (analyze ''hi'') otherResult 2]
   \<and> sorted_wrt (\<lambda>a b. score a \<ge> score b)
        [toChunk (analyze ''hi'') helloResult 0, toChunk (analyze ''hi'') otherResult 2]"
proof -
  let ?q = "analyze ''hi''"
  have h1: "retrieve threeResults ?q noRetrievalOptions
     = Inr [toChunk ?q helloResult 0, toChunk ?q otherResult 2]"
    by (rule retrieve_three)
  have h2: "valueOf (optRerank (mergeRetrievalOptions DEFAULT_RETRIEVAL_OPTIONS
              noRetrievalOptions)) = Some True"
    by (simp add: mergeRetrievalOptions_def noRetrievalOptions_def spread_def
          DEFAULT_RETRIEVAL_OPTIONS_def valueOf_def)
  from rerank_dense_and_retrieve_ordered
         [of "[]" ?q threeResults noRetrievalOptions
             "[toChunk ?q helloResult 0, toChunk ?q otherResult 2]"] h1 h2
  show ?thesis by blast
qed

text \<open>
  C5, as stated, fails for the list \<open>retrieve\<close> returns: of three candidates where the
  second duplicates the first, the default pipeline returns the first and the third with
  ranks 1 and 3.
\<close>

theorem retrieve_rank_gap_counterexample:
  "map_sum id (map (\<lambda>c. (chunkId c, rank c)))
       (retrieve threeResults (analyze ''hi'') noRetrievalOptions)
     = Inr [(''a'', 1), (''c'', 3)]
   \<and> [1, 3] \<noteq> [1..<Suc 2]"
  by (simp add: retrieve_three rank_toChunk toChunk_def helloResult_def otherResult_def
        upt_rec)

end
